theory Spec2Isabelle
  imports Main
begin

section \<open>Python values the downloader handles\<close>

text \<open>
  The program is \<^verbatim>\<open>src/offvsix/main.py\<close>. Text is modelled as \<^typ>\<open>string\<close> over
  8-bit characters, read as the code points below 256; a byte sequence is a list of the
  same characters. \<^verbatim>\<open>None\<close> for an optional string argument is \<^term>\<open>None\<close>.
\<close>

type_synonym bytes = "char list"

text \<open>
  What \<^verbatim>\<open>response.json()\<close> can return. A dict is the list of its items (keys distinct).
  A float is represented by the two observations Python code can make of it here: whether
  it is non-zero (its truth value) and the text \<^verbatim>\<open>str()\<close> gives for it.
\<close>

datatype json =
    JNull
  | JBool bool
  | JInt int
  | JFloat bool string
  | JString string
  | JArray "json list"
  | JObject "(string \<times> json) list"

text \<open>
  The exceptions a run can end with: those of the descent into the metadata answer, and
  those the calls of the operating system raise.
\<close>

datatype pyexn =
    AttributeError | IndexError | TypeError | KeyError
  | FileNotFoundError | FileExistsError | NotADirectoryError | IsADirectoryError
  | PermissionError | OSError | UnicodeDecodeError | ValueError

datatype outcome = Returned | Raised pyexn

text \<open>Truth value testing: \<^verbatim>\<open>if x\<close>, \<^verbatim>\<open>not x\<close>, \<^verbatim>\<open>x or y\<close>.\<close>

fun truthy :: "json \<Rightarrow> bool" where
  "truthy JNull = False"
| "truthy (JBool b) = b"
| "truthy (JInt i) = (i \<noteq> 0)"
| "truthy (JFloat nz s) = nz"
| "truthy (JString s) = (s \<noteq> [])"
| "truthy (JArray xs) = (xs \<noteq> [])"
| "truthy (JObject kvs) = (kvs \<noteq> [])"

definition py_or :: "json \<Rightarrow> json \<Rightarrow> json" where
  "py_or x y = (if truthy x then x else y)"

text \<open>\<^verbatim>\<open>x.get(key)\<close>: only a dict has the method; a missing key gives \<^verbatim>\<open>None\<close>.\<close>

fun py_get :: "json \<Rightarrow> string \<Rightarrow> pyexn + json" where
  "py_get (JObject kvs) k = Inr (case map_of kvs k of None \<Rightarrow> JNull | Some v \<Rightarrow> v)"
| "py_get x k = Inl AttributeError"

text \<open>
  \<^verbatim>\<open>x[0]\<close>: the first element of a list, the first character of a string, IndexError when
  either is empty; on a dict it is a key lookup, and a JSON object has no key \<^verbatim>\<open>0\<close>
  (its keys are strings), so it is KeyError; the other values are not subscriptable.
\<close>

fun py_index0 :: "json \<Rightarrow> pyexn + json" where
  "py_index0 (JArray []) = Inl IndexError"
| "py_index0 (JArray (x # xs)) = Inr x"
| "py_index0 (JString []) = Inl IndexError"
| "py_index0 (JString (c # cs)) = Inr (JString [c])"
| "py_index0 (JObject kvs) = Inl KeyError"
| "py_index0 x = Inl TypeError"

subsection \<open>Formatting a value into an f-string\<close>

fun dec :: "nat \<Rightarrow> string" where
  "dec n = (if n < 10 then [char_of (48 + n)] else dec (n div 10) @ [char_of (48 + n mod 10)])"

declare dec.simps [simp del]

definition str_int :: "int \<Rightarrow> string" where
  "str_int i = (if i < 0 then CHR ''-'' # dec (nat (- i)) else dec (nat i))"

definition hex_digit :: "nat \<Rightarrow> char" where
  "hex_digit n = (if n < 10 then char_of (48 + n) else char_of (87 + n))"

definition printable :: "char \<Rightarrow> bool" where
  "printable c = (let n = (of_char c :: nat) in
     (32 \<le> n \<and> n \<le> 126) \<or> (161 \<le> n \<and> n \<noteq> 173))"

definition repr_char :: "char \<Rightarrow> char \<Rightarrow> string" where
  "repr_char q c =
     (if c = q \<or> c = CHR 0x5C then [CHR 0x5C, c]
      else if c = CHR 0x09 then [CHR 0x5C, CHR ''t'']
      else if c = CHR 0x0A then [CHR 0x5C, CHR ''n'']
      else if c = CHR 0x0D then [CHR 0x5C, CHR ''r'']
      else if printable c then [c]
      else [CHR 0x5C, CHR ''x'', hex_digit (of_char c div 16), hex_digit (of_char c mod 16)])"

text \<open>\<^verbatim>\<open>repr\<close> of a string: single quotes, unless it has a single quote and no double one.\<close>

definition repr_str :: "string \<Rightarrow> string" where
  "repr_str s =
     (let q = (if CHR 0x27 \<in> set s \<and> CHR 0x22 \<notin> set s then CHR 0x22 else CHR 0x27)
      in q # concat (map (repr_char q) s) @ [q])"

fun join_with :: "string \<Rightarrow> string list \<Rightarrow> string" where
  "join_with sep [] = []"
| "join_with sep [x] = x"
| "join_with sep (x # y # ys) = x @ sep @ join_with sep (y # ys)"

primrec py_repr :: "json \<Rightarrow> string" where
  "py_repr JNull = ''None''"
| "py_repr (JBool b) = (if b then ''True'' else ''False'')"
| "py_repr (JInt i) = str_int i"
| "py_repr (JFloat nz s) = s"
| "py_repr (JString s) = repr_str s"
| "py_repr (JArray xs) = ''['' @ join_with '', '' (map py_repr xs) @ '']''"
| "py_repr (JObject kvs) =
     ''{'' @ join_with '', '' (map (\<lambda>(k, r). repr_str k @ '': '' @ r) (map (map_prod id py_repr) kvs)) @ ''}''"

text \<open>\<^verbatim>\<open>str(x)\<close>, which an f-string applies: a string is itself, any other value its repr.\<close>

definition py_str :: "json \<Rightarrow> string" where
  "py_str x = (case x of JString s \<Rightarrow> s | _ \<Rightarrow> py_repr x)"

subsection \<open>Strings\<close>

text \<open>An optional string argument: \<^verbatim>\<open>(x or "")\<close> and the test \<^verbatim>\<open>if x\<close>.\<close>

definition opt_str :: "string option \<Rightarrow> string" where
  "opt_str x = (case x of None \<Rightarrow> [] | Some s \<Rightarrow> s)"

definition str_truthy :: "string option \<Rightarrow> bool" where
  "str_truthy x = (opt_str x \<noteq> [])"

text \<open>The characters \<^verbatim>\<open>str.strip()\<close> removes, among the code points below 256.\<close>

definition py_isspace :: "char \<Rightarrow> bool" where
  "py_isspace c = (let n = (of_char c :: nat) in
     (9 \<le> n \<and> n \<le> 13) \<or> (28 \<le> n \<and> n \<le> 32) \<or> n = 133 \<or> n = 160)"

definition py_strip :: "string \<Rightarrow> string" where
  "py_strip s = rev (dropWhile py_isspace (rev (dropWhile py_isspace s)))"

text \<open>\<^verbatim>\<open>s.split(sep, 1)\<close> for a string that contains the separator: the parts around its
  first occurrence.\<close>

fun split_first :: "char \<Rightarrow> string \<Rightarrow> string \<times> string" where
  "split_first sep [] = ([], [])"
| "split_first sep (c # cs) =
     (if c = sep then ([], cs)
      else (case split_first sep cs of (a, b) \<Rightarrow> (c # a, b)))"

section \<open>The environment: network, file system, standard output\<close>

datatype http_method = POST | GET

text \<open>
  A call of \<^verbatim>\<open>session.post\<close> or \<^verbatim>\<open>session.get\<close>: the arguments the code passes and the
  proxies set on the session. The body of the POST is the document handed to
  \<^verbatim>\<open>json.dumps\<close>; its serialisation is the library's.
\<close>

record request =
  req_method :: http_method
  req_url :: string
  req_headers :: "(string \<times> string) list"
  req_data :: "json option"
  req_timeout :: nat
  req_proxies :: "(string \<times> string) list"

text \<open>
  A response: its status, its body as bytes, and what \<^verbatim>\<open>response.json()\<close> gives,
  \<^term>\<open>None\<close> where the body does not parse (the method raises ValueError).
\<close>

record response =
  status_code :: int
  content :: bytes
  json_value :: "json option"

text \<open>
  The answer to a request: a response, or a \<^verbatim>\<open>requests.RequestException\<close> (a timeout or
  any other transport failure) with its text. The network is any function of the requests
  sent so far and the request made.
\<close>

datatype net_outcome = RequestException string | Response response

type_synonym network = "request list \<Rightarrow> request \<Rightarrow> net_outcome"

text \<open>
  The file system as the program observes it: what exists at each path. The calls that
  change it or read from it are the operating system's: \<^verbatim>\<open>os.makedirs\<close>, the
  \<^verbatim>\<open>open(path, "wb")\<close> with the \<^verbatim>\<open>write\<close> in it, and the \<^verbatim>\<open>open(path, "r", encoding="utf-8")\<close>
  with its \<^verbatim>\<open>readlines\<close>. Each of them can raise (a missing or unwritable parent, a
  directory in the way, bytes that are not UTF-8), and the program catches none of these
  exceptions; a call that raises may still have changed the file system. They are a
  parameter of the model, so that nothing is assumed of them.
\<close>

datatype node = File bytes | Dir

type_synonym filesystem = "string \<rightharpoonup> node"

record os_model =
  os_makedirs :: "filesystem \<Rightarrow> string \<Rightarrow> pyexn option \<times> filesystem"
  os_write :: "filesystem \<Rightarrow> string \<Rightarrow> bytes \<Rightarrow> pyexn option \<times> filesystem"
  os_readlines :: "filesystem \<Rightarrow> string \<Rightarrow> pyexn + string list"

record world =
  fs :: filesystem
  sent :: "request list"
  stdout :: "string list"

definition path_exists :: "filesystem \<Rightarrow> string \<Rightarrow> bool" where
  "path_exists fsys p = (fsys p \<noteq> None)"

text \<open>\<^verbatim>\<open>os.path.join(a, b)\<close> on a POSIX system.\<close>

definition path_join :: "string \<Rightarrow> string \<Rightarrow> string" where
  "path_join a b =
     (if b \<noteq> [] \<and> hd b = CHR ''/'' then b
      else if a = [] \<or> last a = CHR ''/'' then a @ b
      else a @ ''/'' @ b)"

text \<open>
  What \<^verbatim>\<open>readlines\<close> gives for a decoded text, in text mode with universal newlines:
  \<^verbatim>\<open>\r\n\<close> and \<^verbatim>\<open>\r\<close> are read as \<^verbatim>\<open>\n\<close>, and each line keeps its newline.
\<close>

fun translate_newlines :: "string \<Rightarrow> string" where
  "translate_newlines [] = []"
| "translate_newlines (c # cs) =
     (if c = CHR 0x0D then
        (case cs of
           [] \<Rightarrow> [CHR 0x0A]
         | d # ds \<Rightarrow> if d = CHR 0x0A then CHR 0x0A # translate_newlines ds
                     else CHR 0x0A # translate_newlines cs)
      else c # translate_newlines cs)"

fun lines_of :: "string \<Rightarrow> string \<Rightarrow> string list" where
  "lines_of acc [] = (if acc = [] then [] else [acc])"
| "lines_of acc (c # cs) =
     (if c = CHR 0x0A then (acc @ [c]) # lines_of [] cs else lines_of (acc @ [c]) cs)"

definition readlines :: "string \<Rightarrow> string list" where
  "readlines text = lines_of [] (translate_newlines text)"

definition py_print :: "string \<Rightarrow> world \<Rightarrow> world" where
  "py_print msg w = w\<lparr>stdout := stdout w @ [msg]\<rparr>"

definition send :: "request \<Rightarrow> world \<Rightarrow> world" where
  "send req w = w\<lparr>sent := sent w @ [req]\<rparr>"

section \<open>The downloader\<close>

text \<open>
  The fields of \<^verbatim>\<open>VSCodeExtensionDownloader\<close>, as \<^verbatim>\<open>__init__\<close> stores them
  (\<^verbatim>\<open>self.extension\<close> is \<open>self_extension\<close>, and so on).
\<close>

record VSCodeExtensionDownloader =
  self_extension :: "string option"
  self_proxy :: "string option"
  self_version :: "string option"
  self_destination :: "string option"
  self_no_cache :: bool
  self_print :: bool

text \<open>The method \<^verbatim>\<open>_print\<close>: every message of the pipeline goes through it.\<close>

definition downloader_print :: "VSCodeExtensionDownloader \<Rightarrow> string \<Rightarrow> world \<Rightarrow> world" where
  "downloader_print self msg w = (if self_print self then py_print msg w else w)"

subsection \<open>The metadata request (lines 36 to 57)\<close>

definition api_url :: string where
  "api_url = ''https://marketplace.visualstudio.com/_apis/public/gallery/extensionquery''"

definition payload :: "string \<Rightarrow> string \<Rightarrow> json" where
  "payload publisher extension_name =
     JObject [
       (''filters'', JArray [JObject [
          (''criteria'', JArray [JObject [
             (''filterType'', JInt 7),
             (''value'', JString (publisher @ ''.'' @ extension_name))]])]]),
       (''flags'', JInt 914)]"

definition headers :: "(string \<times> string) list" where
  "headers =
     [(''Content-Type'', ''application/json''),
      (''Accept'', ''application/json;api-version=3.0-preview.1''),
      (''User-Agent'', ''Offline VSIX/1.0'')]"

definition session_proxies :: "string option \<Rightarrow> (string \<times> string) list" where
  "session_proxies proxy =
     (if str_truthy proxy then [(''http'', opt_str proxy), (''https'', opt_str proxy)] else [])"

definition metadata_request :: "string \<Rightarrow> string \<Rightarrow> string option \<Rightarrow> request" where
  "metadata_request publisher extension_name proxy =
     \<lparr>req_method = POST, req_url = api_url, req_headers = headers,
      req_data = Some (payload publisher extension_name), req_timeout = 20,
      req_proxies = session_proxies proxy\<rparr>"

subsection \<open>Version selection (lines 76 to 98)\<close>

text \<open>
  The body of the \<^verbatim>\<open>try\<close> (lines 80 to 95): an exception raised on the way, or
  \<^term>\<open>None\<close> for one of its four "not found" returns, or the version entry. A raised
  exception skips the rest of the body.
\<close>

definition exn_bind :: "pyexn + 'a \<Rightarrow> ('a \<Rightarrow> pyexn + 'b) \<Rightarrow> pyexn + 'b" where
  "exn_bind m f = (case m of Inl e \<Rightarrow> Inl e | Inr x \<Rightarrow> f x)"

definition version_lookup :: "json \<Rightarrow> pyexn + json option" where
  "version_lookup extension_data =
     exn_bind (py_get extension_data ''results'') (\<lambda>r.
     let results = py_or r (JArray []) in
     if \<not> truthy results then Inr None else
     exn_bind (py_index0 results) (\<lambda>result0.
     exn_bind (py_get result0 ''extensions'') (\<lambda>x.
     let exts = py_or x (JArray []) in
     if \<not> truthy exts then Inr None else
     exn_bind (py_index0 exts) (\<lambda>ext0.
     exn_bind (py_get ext0 ''versions'') (\<lambda>v.
     let vers = py_or v (JArray []) in
     if \<not> truthy vers then Inr None else
     exn_bind (py_index0 vers) (\<lambda>ver0.
     exn_bind (py_get ver0 ''version'') (\<lambda>version.
     if \<not> truthy version then Inr None else Inr (Some version))))))))"

text \<open>
  Lines 76 to 98: the caller's version when it is given (a non-empty string), else the
  lookup, whose \<^verbatim>\<open>except (AttributeError, IndexError, TypeError)\<close> turns these three
  into "not found" and lets any other exception through.
\<close>

definition select_version :: "string option \<Rightarrow> json \<Rightarrow> pyexn + json option" where
  "select_version specific_version extension_data =
     (if str_truthy specific_version then Inr (Some (JString (opt_str specific_version)))
      else
        (case version_lookup extension_data of
           Inl e \<Rightarrow> if e = AttributeError \<or> e = IndexError \<or> e = TypeError then Inr None else Inl e
         | Inr r \<Rightarrow> Inr r))"

subsection \<open>Path resolution, cache check and download (lines 100 to 130)\<close>

definition vsix_name :: "string \<Rightarrow> string \<Rightarrow> json \<Rightarrow> string" where
  "vsix_name publisher extension_name version =
     publisher @ ''.'' @ extension_name @ ''-'' @ py_str version @ ''.vsix''"

definition ensure_dir :: "os_model \<Rightarrow> string \<Rightarrow> filesystem \<Rightarrow> pyexn option \<times> filesystem" where
  "ensure_dir os d fsys =
     (if \<not> path_exists fsys d then os_makedirs os fsys d else (None, fsys))"

text \<open>
  Lines 100 to 107: the directory is created when nothing exists at its path, and then the
  file path is formed. The result is the file path, or the exception \<^verbatim>\<open>os.makedirs\<close> raised,
  and the file system after that.
\<close>

definition resolve_path ::
  "os_model \<Rightarrow> string option \<Rightarrow> string \<Rightarrow> filesystem \<Rightarrow> (pyexn + string) \<times> filesystem" where
  "resolve_path os destination file_name fsys =
     (if str_truthy destination then
        (case ensure_dir os (opt_str destination) fsys of
           (Some e, fsys') \<Rightarrow> (Inl e, fsys')
         | (None, fsys') \<Rightarrow> (Inr (path_join (opt_str destination) file_name), fsys'))
      else
        (case ensure_dir os ''extensions'' fsys of
           (Some e, fsys') \<Rightarrow> (Inl e, fsys')
         | (None, fsys') \<Rightarrow> (Inr (path_join ''extensions'' file_name), fsys')))"

definition download_url :: "string \<Rightarrow> string \<Rightarrow> json \<Rightarrow> string" where
  "download_url publisher extension_name version =
     ''https://'' @ publisher @ ''.gallery.vsassets.io/_apis/public/gallery/publisher/'' @ publisher
       @ ''/extension/'' @ extension_name @ ''/'' @ py_str version
       @ ''/assetbyname/Microsoft.VisualStudio.Services.VSIXPackage''"

definition download_request :: "string \<Rightarrow> string \<Rightarrow> json \<Rightarrow> string option \<Rightarrow> request" where
  "download_request publisher extension_name version proxy =
     \<lparr>req_method = GET, req_url = download_url publisher extension_name version,
      req_headers = [], req_data = None, req_timeout = 60,
      req_proxies = session_proxies proxy\<rparr>"

text \<open>Lines 109 to 130, from the resolved path on.\<close>

definition fetch_artifact ::
  "os_model \<Rightarrow> network \<Rightarrow> VSCodeExtensionDownloader \<Rightarrow> string \<Rightarrow> string \<Rightarrow> string option \<Rightarrow> json \<Rightarrow>
   bool \<Rightarrow> string \<Rightarrow> world \<Rightarrow> outcome \<times> world" where
  "fetch_artifact os net self publisher extension_name proxy version no_cache file_path w =
     (if \<not> no_cache \<and> path_exists (fs w) file_path then
        (Returned,
         downloader_print self ''Use --no-cache to force re-download.''
           (downloader_print self (''File '' @ file_path @ '' already exists.'') w))
      else
        let w1 = downloader_print self (''Downloading version '' @ py_str version @ ''...'') w;
            req = download_request publisher extension_name version proxy
        in case net (sent w1) req of
             RequestException e \<Rightarrow>
               (Returned, downloader_print self (''Failed to download asset: '' @ e) (send req w1))
           | Response download_response \<Rightarrow>
               if status_code download_response = 200 then
                 (case os_write os (fs w1) file_path (content download_response) of
                    (Some e, fsys) \<Rightarrow> (Raised e, (send req w1)\<lparr>fs := fsys\<rparr>)
                  | (None, fsys) \<Rightarrow>
                      (Returned,
                       downloader_print self (replicate 50 CHR ''*'')
                         (downloader_print self (''Successfully downloaded to: '' @ file_path)
                            (downloader_print self (replicate 50 CHR ''*'')
                               ((send req w1)\<lparr>fs := fsys\<rparr>)))))
               else
                 (Returned,
                  downloader_print self
                    (''Failed to download '' @ vsix_name publisher extension_name version)
                    (send req w1)))"

subsection \<open>The method \<^verbatim>\<open>_download_vscode_extension\<close>\<close>

definition download_vscode_extension ::
  "os_model \<Rightarrow> network \<Rightarrow> VSCodeExtensionDownloader \<Rightarrow> string \<Rightarrow> string \<Rightarrow> string option \<Rightarrow>
   string option \<Rightarrow> string option \<Rightarrow> bool \<Rightarrow> world \<Rightarrow> outcome \<times> world" where
  "download_vscode_extension os net self publisher extension_name proxy specific_version
       destination no_cache w =
     (let w1 = (if str_truthy proxy
                then downloader_print self (''Using proxy: '' @ opt_str proxy) w else w);
          w2 = downloader_print self ''Querying Marketplace API...'' w1;
          req = metadata_request publisher extension_name proxy;
          w3 = send req w2
      in case net (sent w2) req of
           RequestException e \<Rightarrow>
             (Returned, downloader_print self (''Failed to query Marketplace API: '' @ e) w3)
         | Response response \<Rightarrow>
             if status_code response \<noteq> 200 then
               (Returned, downloader_print self ''Failed to query Marketplace API'' w3)
             else
               (case json_value response of
                  None \<Rightarrow>
                    (Returned, downloader_print self ''Failed to parse Marketplace API response'' w3)
                | Some extension_data \<Rightarrow>
                    (case select_version specific_version extension_data of
                       Inl e \<Rightarrow> (Raised e, w3)
                     | Inr None \<Rightarrow>
                         (Returned,
                          downloader_print self
                            (''Extension not found: '' @ publisher @ ''.'' @ extension_name) w3)
                     | Inr (Some version) \<Rightarrow>
                         (case resolve_path os destination
                                 (vsix_name publisher extension_name version) (fs w3) of
                            (Inl e, fsys) \<Rightarrow> (Raised e, w3\<lparr>fs := fsys\<rparr>)
                          | (Inr file_path, fsys) \<Rightarrow>
                              fetch_artifact os net self publisher extension_name proxy version
                                no_cache file_path (w3\<lparr>fs := fsys\<rparr>)))))"

subsection \<open>The method \<^verbatim>\<open>download\<close>\<close>

definition invalid_message :: "string \<Rightarrow> string" where
  "invalid_message ext =
     ''Invalid extension identifier: '' @ ext @ ''. Use the form publisher.extension''"

definition banner :: "VSCodeExtensionDownloader \<Rightarrow> string \<Rightarrow> string \<Rightarrow> world \<Rightarrow> world" where
  "banner self publisher extension_name w =
     downloader_print self (replicate 50 CHR ''='')
       (downloader_print self (''Downloading '' @ publisher @ ''.'' @ extension_name)
          (downloader_print self (replicate 50 CHR ''='') w))"

definition download ::
  "os_model \<Rightarrow> network \<Rightarrow> VSCodeExtensionDownloader \<Rightarrow> world \<Rightarrow> outcome \<times> world" where
  "download os net self w =
     (let ext = py_strip (opt_str (self_extension self)) in
      if CHR ''.'' \<notin> set ext then (Returned, downloader_print self (invalid_message ext) w)
      else
        (case split_first CHR ''.'' ext of
           (publisher, extension_name) \<Rightarrow>
             if publisher = [] \<or> extension_name = [] then
               (Returned, downloader_print self (invalid_message ext) w)
             else
               download_vscode_extension os net self publisher extension_name (self_proxy self)
                 (self_version self) (self_destination self) (self_no_cache self)
                 (banner self publisher extension_name w)))"

section \<open>Batch runner and command surface\<close>

text \<open>The loop of \<^verbatim>\<open>download_plugins_from_file\<close> (lines 138 to 142); an exception that leaves
  \<^verbatim>\<open>download\<close> leaves the loop.\<close>

fun download_lines ::
  "os_model \<Rightarrow> network \<Rightarrow> string option \<Rightarrow> string option \<Rightarrow> string option \<Rightarrow> bool \<Rightarrow>
   bool \<Rightarrow> string list \<Rightarrow> world \<Rightarrow> outcome \<times> world" where
  "download_lines os net proxy version destination no_cache verbose [] w = (Returned, w)"
| "download_lines os net proxy version destination no_cache verbose (line # rest) w =
     (let extension = py_strip line in
      if extension \<noteq> [] then
        (case download os net
                \<lparr>self_extension = Some extension, self_proxy = proxy, self_version = version,
                 self_destination = destination, self_no_cache = no_cache,
                 self_print = verbose\<rparr> w of
           (Returned, w') \<Rightarrow>
             download_lines os net proxy version destination no_cache verbose rest w'
         | (Raised e, w') \<Rightarrow> (Raised e, w'))
      else download_lines os net proxy version destination no_cache verbose rest w)"

text \<open>Lines 132 to 142; an exception raised while the list file is opened and read leaves
  the function before any line is processed.\<close>

definition download_plugins_from_file ::
  "os_model \<Rightarrow> network \<Rightarrow> string \<Rightarrow> string option \<Rightarrow> string option \<Rightarrow> string option \<Rightarrow>
   bool \<Rightarrow> bool \<Rightarrow> world \<Rightarrow> outcome \<times> world" where
  "download_plugins_from_file os net file_path proxy version destination no_cache verbose w =
     (if \<not> path_exists (fs w) file_path then
        (Returned, py_print (''File not found: '' @ file_path) w)
      else
        (case os_readlines os (fs w) file_path of
           Inl e \<Rightarrow> (Raised e, w)
         | Inr extensions \<Rightarrow>
             download_lines os net proxy version destination no_cache verbose extensions w))"

definition usage_message :: string where
  "usage_message = ''Please provide either an extension or a file containing extensions.''"

text \<open>The function \<^verbatim>\<open>cli\<close>, on the parameter values click passes to it.\<close>

definition cli ::
  "os_model \<Rightarrow> network \<Rightarrow> string option \<Rightarrow> string option \<Rightarrow> string option \<Rightarrow> string option \<Rightarrow>
   string option \<Rightarrow> bool \<Rightarrow> bool \<Rightarrow> world \<Rightarrow> outcome \<times> world" where
  "cli os net extension file proxy version destination no_cache no_print w =
     (if str_truthy file then
        download_plugins_from_file os net (opt_str file) proxy version destination no_cache
          no_print w
      else if str_truthy extension then
        download os net
          \<lparr>self_extension = extension, self_proxy = proxy, self_version = version,
           self_destination = destination, self_no_cache = no_cache, self_print = no_print\<rparr> w
      else (Returned, py_print usage_message w))"

text \<open>
  The command line as the user gives it: the optional argument, the valued options, and
  for each of the two flags whether it is present.
\<close>

record invocation =
  arg_extension :: "string option"
  opt_version :: "string option"
  opt_destination :: "string option"
  opt_file :: "string option"
  opt_proxy :: "string option"
  flag_no_cache :: bool
  flag_no_print :: bool

text \<open>
  The value click gives a boolean flag: its declared default when the flag is absent, the
  flag value when it is present.
\<close>

definition click_flag :: "bool \<Rightarrow> bool \<Rightarrow> bool \<Rightarrow> bool" where
  "click_flag default_value flag_value present = (if present then flag_value else default_value)"

text \<open>
  The command built by the decorators of lines 144 to 151: \<^verbatim>\<open>--no-cache\<close> is declared
  with default \<^verbatim>\<open>False\<close> and \<^verbatim>\<open>--no-print\<close> with default \<^verbatim>\<open>True\<close>. Neither declares its
  flag value; click's choice for \<^verbatim>\<open>--no-print\<close> is the parameter \<open>flag_value\<close>.
\<close>

definition cli_command ::
  "bool \<Rightarrow> os_model \<Rightarrow> network \<Rightarrow> invocation \<Rightarrow> world \<Rightarrow> outcome \<times> world" where
  "cli_command flag_value os net call w =
     cli os net (arg_extension call) (opt_file call) (opt_proxy call) (opt_version call)
       (opt_destination call)
       (click_flag False True (flag_no_cache call))
       (click_flag True flag_value (flag_no_print call)) w"

section \<open>Concrete environments\<close>

text \<open>
  An operating system to run the examples on: a POSIX file system without symbolic links
  in which the process may read and write everything, on the paths the examples use.
  \<^verbatim>\<open>os.makedirs\<close> creates the missing ancestors and the directory, and raises when one of
  the ancestors is a regular file; opening a file for writing needs its directory to exist
  and the path not to be a directory; reading a text file decodes it first. Of UTF-8 it
  decodes the characters these strings can hold (code points below 256) and refuses
  everything else.
\<close>

definition ancestors :: "string \<Rightarrow> string list" where
  "ancestors p = [take i p. i \<leftarrow> [1..<length p], p ! i = CHR ''/'']"

definition is_file :: "filesystem \<Rightarrow> string \<Rightarrow> bool" where
  "is_file fsys q = (case fsys q of Some (File d) \<Rightarrow> True | _ \<Rightarrow> False)"

definition posix_makedirs :: "filesystem \<Rightarrow> string \<Rightarrow> pyexn option \<times> filesystem" where
  "posix_makedirs fsys p =
     (if fsys p \<noteq> None then (Some FileExistsError, fsys)
      else if list_ex (is_file fsys) (ancestors p) then (Some NotADirectoryError, fsys)
      else (None, fold (\<lambda>q f. if f q = None then f(q \<mapsto> Dir) else f) (ancestors p @ [p]) fsys))"

text \<open>The directory a path lies in; \<^term>\<open>None\<close> for the current directory and the root.\<close>

definition parent_dir :: "string \<Rightarrow> string option" where
  "parent_dir p =
     (let d = rev (drop 1 (dropWhile (\<lambda>c. c \<noteq> CHR ''/'') (rev p)))
      in if d = [] then None else Some d)"

definition posix_write :: "filesystem \<Rightarrow> string \<Rightarrow> bytes \<Rightarrow> pyexn option \<times> filesystem" where
  "posix_write fsys p data =
     (if fsys p = Some Dir then (Some IsADirectoryError, fsys)
      else
        (case parent_dir p of
           None \<Rightarrow> (None, fsys(p \<mapsto> File data))
         | Some d \<Rightarrow>
             (case fsys d of
                None \<Rightarrow> (Some FileNotFoundError, fsys)
              | Some (File x) \<Rightarrow> (Some NotADirectoryError, fsys)
              | Some Dir \<Rightarrow> (None, fsys(p \<mapsto> File data)))))"

fun utf8_decode :: "bytes \<Rightarrow> string option" where
  "utf8_decode [] = Some []"
| "utf8_decode [b] = (if (of_char b :: nat) < 128 then Some [b] else None)"
| "utf8_decode (b # c # cs) =
     (let n = (of_char b :: nat); m = (of_char c :: nat) in
      if n < 128 then map_option ((#) b) (utf8_decode (c # cs))
      else if (n = 194 \<or> n = 195) \<and> 128 \<le> m \<and> m < 192
        then map_option ((#) (char_of (m + (n - 194) * 64))) (utf8_decode cs)
      else None)"

definition posix_readlines :: "filesystem \<Rightarrow> string \<Rightarrow> pyexn + string list" where
  "posix_readlines fsys p =
     (case fsys p of
        None \<Rightarrow> Inl FileNotFoundError
      | Some Dir \<Rightarrow> Inl IsADirectoryError
      | Some (File data) \<Rightarrow>
          (case utf8_decode data of
             None \<Rightarrow> Inl UnicodeDecodeError
           | Some text \<Rightarrow> Inr (readlines text)))"

definition posix_os :: os_model where
  "posix_os =
     \<lparr>os_makedirs = posix_makedirs, os_write = posix_write, os_readlines = posix_readlines\<rparr>"

text \<open>An operating system on which a write that returns has stored the bytes at the path.\<close>

definition write_stores :: "os_model \<Rightarrow> bool" where
  "write_stores os =
     (\<forall>fsys p data fsys'. os_write os fsys p data = (None, fsys') \<longrightarrow> fsys' p = Some (File data))"

definition world0 :: world where
  "world0 = \<lparr>fs = Map.empty, sent = [], stdout = []\<rparr>"

text \<open>A network on which every request times out.\<close>

definition net_down :: network where
  "net_down hist req = RequestException ''timed out''"

text \<open>The metadata document of the spec's end-to-end scenario, and a marketplace that
  answers every query with it and every download with two bytes.\<close>

definition metadata_2024 :: json where
  "metadata_2024 =
     JObject [(''results'', JArray [JObject [(''extensions'', JArray [JObject
       [(''versions'', JArray [JObject [(''version'', JString ''2024.1.0'')]])]])]])]"

definition net_ok :: network where
  "net_ok hist req =
     (if req_method req = POST
      then Response \<lparr>status_code = 200, content = [], json_value = Some metadata_2024\<rparr>
      else Response \<lparr>status_code = 200, content = ''PK'', json_value = None\<rparr>)"

text \<open>A marketplace whose downloads answer 404.\<close>

definition net_404 :: network where
  "net_404 hist req =
     (if req_method req = POST
      then Response \<lparr>status_code = 200, content = [], json_value = Some metadata_2024\<rparr>
      else Response \<lparr>status_code = 404, content = [], json_value = None\<rparr>)"

text \<open>A parseable answer whose \<^verbatim>\<open>results\<close> is a non-empty object, not a list.\<close>

definition metadata_odd :: json where
  "metadata_odd = JObject [(''results'', JObject [(''x'', JInt 1)])]"

definition net_odd :: network where
  "net_odd hist req =
     (if req_data req = Some (payload ''odd'' ''one'')
      then Response \<lparr>status_code = 200, content = [], json_value = Some metadata_odd\<rparr>
      else net_ok hist req)"

definition loud :: "string \<Rightarrow> VSCodeExtensionDownloader" where
  "loud e =
     \<lparr>self_extension = Some e, self_proxy = None, self_version = None,
      self_destination = None, self_no_cache = False, self_print = True\<rparr>"

text \<open>A file system holding a list file of two lines and nothing else.\<close>

definition world_list :: world where
  "world_list =
     \<lparr>fs = [''list.txt'' \<mapsto> File ''odd.one\<newline>pub.ext\<newline>''], sent = [], stdout = []\<rparr>"

definition call0 :: invocation where
  "call0 =
     \<lparr>arg_extension = Some ''badid'', opt_version = None, opt_destination = None,
      opt_file = None, opt_proxy = None, flag_no_cache = False, flag_no_print = False\<rparr>"

text \<open>A file system in which the artifact of the scenario is already present.\<close>

definition world_cached :: world where
  "world_cached =
     \<lparr>fs = [''extensions'' \<mapsto> Dir, ''extensions/pub.ext-2024.1.0.vsix'' \<mapsto> File ''old''],
      sent = [], stdout = []\<rparr>"

text \<open>A file system whose only entry is a regular file named \<^verbatim>\<open>f\<close>.\<close>

definition world_f :: world where
  "world_f = \<lparr>fs = [''f'' \<mapsto> File ''x''], sent = [], stdout = []\<rparr>"

section \<open>The world after the metadata query is sent\<close>

text \<open>
  Lines 53 to 61 up to the call of \<^verbatim>\<open>session.post\<close>: the proxy message when a proxy is
  set, the query message, and the request on the wire.
\<close>

definition query_world :: "VSCodeExtensionDownloader \<Rightarrow> string \<Rightarrow> string \<Rightarrow> string option \<Rightarrow> world \<Rightarrow> world" where
  "query_world self publisher extension_name proxy w =
     send (metadata_request publisher extension_name proxy)
       (downloader_print self ''Querying Marketplace API...''
         (if str_truthy proxy then downloader_print self (''Using proxy: '' @ opt_str proxy) w else w))"


text \<open>
  What every message of the pipeline and of the batch runner has in common: it is not empty
  and does not start with the letter the usage message starts with.
\<close>

definition pipeline_message :: "string \<Rightarrow> bool" where
  "pipeline_message m = (m \<noteq> [] \<and> hd m \<noteq> CHR ''P'')"

section \<open>Effects of the building blocks\<close>

lemma downloader_print_fs [simp]: "fs (downloader_print self msg w) = fs w"
  by (simp add: downloader_print_def py_print_def)

lemma downloader_print_sent [simp]: "sent (downloader_print self msg w) = sent w"
  by (simp add: downloader_print_def py_print_def)

lemma downloader_print_stdout [simp]:
  "stdout (downloader_print self msg w) = stdout w @ (if self_print self then [msg] else [])"
  by (simp add: downloader_print_def py_print_def)

lemma send_simps [simp]:
  "fs (send req w) = fs w" "sent (send req w) = sent w @ [req]" "stdout (send req w) = stdout w"
  by (simp_all add: send_def)


lemma fetch_artifact_skip:
  assumes "\<not> no_cache" "path_exists (fs w) file_path"
  shows "fetch_artifact os net self publisher extension_name proxy version no_cache file_path w =
    (Returned, downloader_print self ''Use --no-cache to force re-download.''
           (downloader_print self (''File '' @ file_path @ '' already exists.'') w))"
  using assms by (simp add: fetch_artifact_def)

lemma fetch_artifact_get:
  assumes "no_cache \<or> \<not> path_exists (fs w) file_path"
    and "fetch_artifact os net self publisher extension_name proxy version no_cache file_path w
           = (r, w')"
  shows "sent w' = sent w @ [download_request publisher extension_name version proxy]
     \<and> (case net (sent w) (download_request publisher extension_name version proxy) of
           RequestException e \<Rightarrow>
             r = Returned \<and> fs w' = fs w
             \<and> stdout w' = stdout w @
                 (if self_print self
                  then [''Downloading version '' @ py_str version @ ''...'',
                        ''Failed to download asset: '' @ e]
                  else [])
         | Response d \<Rightarrow>
             if status_code d = 200 then
               (case os_write os (fs w) file_path (content d) of
                  (Some e, fsys) \<Rightarrow>
                    r = Raised e \<and> fs w' = fsys
                    \<and> stdout w' = stdout w @
                        (if self_print self
                         then [''Downloading version '' @ py_str version @ ''...''] else [])
                | (None, fsys) \<Rightarrow>
                    r = Returned \<and> fs w' = fsys
                    \<and> stdout w' = stdout w @
                        (if self_print self
                         then [''Downloading version '' @ py_str version @ ''...'',
                               replicate 50 CHR ''*'',
                               ''Successfully downloaded to: '' @ file_path,
                               replicate 50 CHR ''*'']
                         else []))
             else
               r = Returned \<and> fs w' = fs w
               \<and> stdout w' = stdout w @
                   (if self_print self
                    then [''Downloading version '' @ py_str version @ ''...'',
                          ''Failed to download '' @ vsix_name publisher extension_name version]
                    else []))"
  using assms
  by (auto simp add: fetch_artifact_def Let_def
      split: net_outcome.splits if_splits prod.splits option.splits)

lemma query_world_simps [simp]:
  "fs (query_world self p n proxy w) = fs w"
  "sent (query_world self p n proxy w) = sent w @ [metadata_request p n proxy]"
  "stdout (query_world self p n proxy w) = stdout w @ (if self_print self then (if str_truthy proxy then [''Using proxy: '' @ opt_str proxy] else []) @ [''Querying Marketplace API...''] else [])"
  by (simp_all add: query_world_def)


lemma dve_stages:
  "download_vscode_extension os net self publisher extension_name proxy specific_version
       destination no_cache w =
    (let wq = query_world self publisher extension_name proxy w in
     case net (sent w) (metadata_request publisher extension_name proxy) of
       RequestException e \<Rightarrow>
         (Returned, downloader_print self (''Failed to query Marketplace API: '' @ e) wq)
     | Response response \<Rightarrow>
         if status_code response \<noteq> 200
         then (Returned, downloader_print self ''Failed to query Marketplace API'' wq)
         else (case json_value response of
            None \<Rightarrow>
              (Returned, downloader_print self ''Failed to parse Marketplace API response'' wq)
          | Some extension_data \<Rightarrow>
              (case select_version specific_version extension_data of
                 Inl e \<Rightarrow> (Raised e, wq)
               | Inr None \<Rightarrow>
                   (Returned,
                    downloader_print self
                      (''Extension not found: '' @ publisher @ ''.'' @ extension_name) wq)
               | Inr (Some version) \<Rightarrow>
                   (case resolve_path os destination
                           (vsix_name publisher extension_name version) (fs w) of
                      (Inl e, fsys) \<Rightarrow> (Raised e, wq\<lparr>fs := fsys\<rparr>)
                    | (Inr file_path, fsys) \<Rightarrow>
                        fetch_artifact os net self publisher extension_name proxy version
                          no_cache file_path (wq\<lparr>fs := fsys\<rparr>)))))"
  by (simp add: download_vscode_extension_def query_world_def Let_def
      split: net_outcome.splits option.splits sum.splits prod.splits)

lemma resolve_path_file:
  assumes "resolve_path os destination file_name fsys = (Inr file_path, fsys')"
  shows "file_path =
    path_join (if str_truthy destination then opt_str destination else ''extensions'') file_name"
  using assms by (auto simp add: resolve_path_def split: if_splits prod.splits option.splits)

lemma resolve_path_existing:
  assumes "path_exists fsys
             (if str_truthy destination then opt_str destination else ''extensions'')"
  shows "resolve_path os destination file_name fsys =
    (Inr (path_join (if str_truthy destination then opt_str destination else ''extensions'')
            file_name), fsys)"
  using assms by (auto simp add: resolve_path_def ensure_dir_def)

lemma resolve_path_missing:
  assumes "\<not> path_exists fsys
             (if str_truthy destination then opt_str destination else ''extensions'')"
  shows "resolve_path os destination file_name fsys =
    (case os_makedirs os fsys
            (if str_truthy destination then opt_str destination else ''extensions'') of
       (Some e, fsys') \<Rightarrow> (Inl e, fsys')
     | (None, fsys') \<Rightarrow>
         (Inr (path_join (if str_truthy destination then opt_str destination else ''extensions'')
                 file_name), fsys'))"
  using assms by (auto simp add: resolve_path_def ensure_dir_def)

lemma path_join_plain:
  "a \<noteq> [] \<Longrightarrow> last a \<noteq> CHR ''/'' \<Longrightarrow> b = [] \<or> hd b \<noteq> CHR ''/'' \<Longrightarrow>
   path_join a b = a @ ''/'' @ b"
  by (auto simp add: path_join_def)

lemma dve_fetch:
  assumes "net (sent w) (metadata_request publisher extension_name proxy) = Response response"
    and "status_code response = 200"
    and "json_value response = Some extension_data"
    and "select_version specific_version extension_data = Inr (Some version)"
    and "resolve_path os destination (vsix_name publisher extension_name version) (fs w)
           = (Inr file_path, fsys)"
  shows "download_vscode_extension os net self publisher extension_name proxy specific_version
           destination no_cache w =
         fetch_artifact os net self publisher extension_name proxy version no_cache file_path
           ((query_world self publisher extension_name proxy w)\<lparr>fs := fsys\<rparr>)"
  using assms by (simp add: dve_stages)

lemma dve_resolve_raises:
  assumes "net (sent w) (metadata_request publisher extension_name proxy) = Response response"
    and "status_code response = 200"
    and "json_value response = Some extension_data"
    and "select_version specific_version extension_data = Inr (Some version)"
    and "resolve_path os destination (vsix_name publisher extension_name version) (fs w)
           = (Inl e, fsys)"
  shows "download_vscode_extension os net self publisher extension_name proxy specific_version
           destination no_cache w =
         (Raised e, (query_world self publisher extension_name proxy w)\<lparr>fs := fsys\<rparr>)"
  using assms by (simp add: dve_stages)

lemma dve_requests:
  assumes "net (sent w) (metadata_request publisher extension_name proxy) = Response response"
    and "status_code response = 200"
    and "json_value response = Some extension_data"
    and "select_version specific_version extension_data = Inr (Some version)"
    and "resolve_path os destination (vsix_name publisher extension_name version) (fs w)
           = (Inr file_path, fsys)"
    and "download_vscode_extension os net self publisher extension_name proxy specific_version
           destination no_cache w = (r, w')"
  shows "sent w' = sent w @ metadata_request publisher extension_name proxy #
           (if no_cache \<or> \<not> path_exists fsys file_path
            then [download_request publisher extension_name version proxy] else [])"
proof -
  let ?w = "(query_world self publisher extension_name proxy w)\<lparr>fs := fsys\<rparr>"
  have run: "fetch_artifact os net self publisher extension_name proxy version no_cache
      file_path ?w = (r, w')"
    using dve_fetch [of net w, OF assms(1-5)] assms(6) by simp
  show ?thesis
  proof (cases "no_cache \<or> \<not> path_exists fsys file_path")
    case True
    then have "no_cache \<or> \<not> path_exists (fs ?w) file_path" by simp
    from fetch_artifact_get [OF this run] True show ?thesis by auto
  next
    case False
    then have skip: "\<not> no_cache" "path_exists (fs ?w) file_path" by simp_all
    from fetch_artifact_skip [OF skip] run False show ?thesis by auto
  qed
qed

lemma select_version_override:
  "str_truthy specific_version \<Longrightarrow>
   select_version specific_version extension_data = Inr (Some (JString (opt_str specific_version)))"
  by (simp add: select_version_def)

text \<open>Trimming and splitting the identifier.\<close>

lemma py_strip_spec:
  "\<exists>l t. s = l @ py_strip s @ t \<and> list_all py_isspace l \<and> list_all py_isspace t"
proof -
  let ?d = "dropWhile py_isspace s"
  have "s = takeWhile py_isspace s @ ?d" by simp
  moreover have "?d = py_strip s @ rev (takeWhile py_isspace (rev ?d))"
  proof -
    have "rev (takeWhile py_isspace (rev ?d) @ dropWhile py_isspace (rev ?d)) = ?d"
      by (simp only: takeWhile_dropWhile_id rev_rev_ident)
    then show ?thesis by (simp only: rev_append py_strip_def)
  qed
  moreover have "list_all py_isspace (takeWhile py_isspace s)"
    by (simp add: list_all_iff) (metis set_takeWhileD)
  moreover have "list_all py_isspace (rev (takeWhile py_isspace (rev ?d)))"
    by (simp add: list_all_iff) (metis set_takeWhileD)
  ultimately show ?thesis by metis
qed

lemma py_strip_ends:
  "py_strip s \<noteq> [] \<Longrightarrow> \<not> py_isspace (hd (py_strip s)) \<and> \<not> py_isspace (last (py_strip s))"
proof -
  assume ne: "py_strip s \<noteq> []"
  let ?d = "dropWhile py_isspace s"
  let ?e = "dropWhile py_isspace (rev ?d)"
  from ne have e: "?e \<noteq> []" by (simp add: py_strip_def)
  then have "\<not> py_isspace (hd ?e)" by (rule hd_dropWhile)
  with e have last: "\<not> py_isspace (last (py_strip s))"
    by (simp add: py_strip_def last_rev)
  have d: "?d \<noteq> []"
  proof
    assume "?d = []"
    then have "?e = []" by (simp only: rev.simps(1) dropWhile.simps(1))
    with e show False by simp
  qed
  then have hd: "\<not> py_isspace (hd ?d)" by (rule hd_dropWhile)
  have "rev ?d = takeWhile py_isspace (rev ?d) @ ?e" by simp
  then have "?d = rev ?e @ rev (takeWhile py_isspace (rev ?d))"
    by (metis rev_append rev_rev_ident)
  with e have "hd ?d = hd (rev ?e)" by (metis hd_append2 rev_is_Nil_conv)
  with hd have "\<not> py_isspace (hd (py_strip s))" by (simp add: py_strip_def)
  with last show ?thesis by simp
qed

lemma split_first_parts:
  assumes "sep \<in> set s" and "split_first sep s = (a, b)"
  shows "s = a @ sep # b \<and> sep \<notin> set a"
  using assms
proof (induction s arbitrary: a b)
  case Nil
  then show ?case by simp
next
  case (Cons c cs)
  show ?case
  proof (cases "c = sep")
    case True
    with Cons.prems show ?thesis by simp
  next
    case False
    obtain a' b' where rest: "split_first sep cs = (a', b')"
      by (cases "split_first sep cs")
    from False Cons.prems have "sep \<in> set cs" by simp
    from Cons.IH [OF this rest] False rest Cons.prems show ?thesis by auto
  qed
qed

lemma split_first_spec:
  "sep \<in> set s \<Longrightarrow>
   split_first sep s = (takeWhile (\<lambda>c. c \<noteq> sep) s, tl (dropWhile (\<lambda>c. c \<noteq> sep) s))"
  by (induction s) (auto split: prod.splits)

lemma banner_simps [simp]:
  "fs (banner self p n w) = fs w" "sent (banner self p n w) = sent w"
  by (simp_all add: banner_def)

lemma fetch_sent_prefix:
  "\<exists>rest. sent (snd (fetch_artifact os net self publisher extension_name proxy version no_cache
       file_path w)) = sent w @ rest"
  by (auto simp add: fetch_artifact_def Let_def
      split: net_outcome.splits prod.splits option.splits)

lemma dve_sends_post:
  "\<exists>rest. sent (snd (download_vscode_extension os net self publisher extension_name proxy
       specific_version destination no_cache w)) =
     sent w @ metadata_request publisher extension_name proxy # rest"
proof -
  have fetch: "\<And>version file_path fsys. \<exists>rest.
      sent (snd (fetch_artifact os net self publisher extension_name proxy version no_cache file_path
        ((query_world self publisher extension_name proxy w)\<lparr>fs := fsys\<rparr>))) =
      sent w @ metadata_request publisher extension_name proxy # rest"
  proof -
    fix version file_path fsys
    from fetch_sent_prefix [of os net self publisher extension_name proxy version no_cache file_path
        "(query_world self publisher extension_name proxy w)\<lparr>fs := fsys\<rparr>"]
    show "\<exists>rest.
      sent (snd (fetch_artifact os net self publisher extension_name proxy version no_cache file_path
        ((query_world self publisher extension_name proxy w)\<lparr>fs := fsys\<rparr>))) =
      sent w @ metadata_request publisher extension_name proxy # rest"
      by auto
  qed
  show ?thesis
    by (auto simp add: dve_stages Let_def fetch
        split: net_outcome.splits option.splits sum.splits prod.splits)
qed

text \<open>What a run prints.\<close>

lemma usage_not_pipeline: "\<not> pipeline_message usage_message"
  by (simp add: pipeline_message_def usage_message_def)

lemma fetch_stdout:
  "\<exists>msgs. stdout (snd (fetch_artifact os net self publisher extension_name proxy version no_cache
       file_path w)) = stdout w @ msgs
     \<and> (\<not> self_print self \<longrightarrow> msgs = []) \<and> list_all pipeline_message msgs"
  by (auto simp add: fetch_artifact_def Let_def pipeline_message_def
      split: net_outcome.splits prod.splits option.splits)

lemma dve_stdout:
  "\<exists>msgs. stdout (snd (download_vscode_extension os net self publisher extension_name proxy
       specific_version destination no_cache w)) = stdout w @ msgs
     \<and> (\<not> self_print self \<longrightarrow> msgs = []) \<and> (self_print self \<longrightarrow> msgs \<noteq> [])
     \<and> list_all pipeline_message msgs"
proof -
  let ?q = "query_world self publisher extension_name proxy w"
  have q: "\<exists>ms. stdout ?q = stdout w @ ms \<and> (\<not> self_print self \<longrightarrow> ms = [])
      \<and> (self_print self \<longrightarrow> ms \<noteq> []) \<and> list_all pipeline_message ms"
    by (simp add: pipeline_message_def)
  then obtain ms where ms: "stdout ?q = stdout w @ ms" "\<not> self_print self \<longrightarrow> ms = []"
      "self_print self \<longrightarrow> ms \<noteq> []" "list_all pipeline_message ms" by blast
  have fetch: "\<And>version file_path fsys. \<exists>msgs.
      stdout (snd (fetch_artifact os net self publisher extension_name proxy version no_cache file_path
        (?q\<lparr>fs := fsys\<rparr>))) = stdout w @ msgs
      \<and> (\<not> self_print self \<longrightarrow> msgs = []) \<and> (self_print self \<longrightarrow> msgs \<noteq> [])
      \<and> list_all pipeline_message msgs"
  proof -
    fix version file_path fsys
    from fetch_stdout [of os net self publisher extension_name proxy version no_cache file_path
        "?q\<lparr>fs := fsys\<rparr>"]
    obtain more where more: "stdout (snd (fetch_artifact os net self publisher extension_name proxy
        version no_cache file_path (?q\<lparr>fs := fsys\<rparr>))) = stdout (?q\<lparr>fs := fsys\<rparr>) @ more"
      "\<not> self_print self \<longrightarrow> more = []" "list_all pipeline_message more" by blast
    from more ms have "stdout (snd (fetch_artifact os net self publisher extension_name proxy
        version no_cache file_path (?q\<lparr>fs := fsys\<rparr>))) = stdout w @ (ms @ more)
      \<and> (\<not> self_print self \<longrightarrow> ms @ more = []) \<and> (self_print self \<longrightarrow> ms @ more \<noteq> [])
      \<and> list_all pipeline_message (ms @ more)" by simp
    then show "\<exists>msgs.
      stdout (snd (fetch_artifact os net self publisher extension_name proxy version no_cache file_path
        (?q\<lparr>fs := fsys\<rparr>))) = stdout w @ msgs
      \<and> (\<not> self_print self \<longrightarrow> msgs = []) \<and> (self_print self \<longrightarrow> msgs \<noteq> [])
      \<and> list_all pipeline_message msgs" by blast
  qed
  show ?thesis
  proof (cases "net (sent w) (metadata_request publisher extension_name proxy)")
    case (RequestException e)
    then show ?thesis by (simp add: dve_stages pipeline_message_def)
  next
    case (Response response)
    show ?thesis
    proof (cases "status_code response = 200")
      case False
      with Response show ?thesis by (simp add: dve_stages pipeline_message_def)
    next
      case True
      show ?thesis
      proof (cases "json_value response")
        case None
        with True Response show ?thesis by (simp add: dve_stages pipeline_message_def)
      next
        case (Some extension_data)
        show ?thesis
        proof (cases "select_version specific_version extension_data")
          case (Inl e)
          with Some True Response ms show ?thesis by (simp add: dve_stages)
        next
          case (Inr v)
          show ?thesis
          proof (cases v)
            case None
            with Inr Some True Response show ?thesis by (simp add: dve_stages pipeline_message_def)
          next
            case (Some version)
            obtain res fsys where
              res: "resolve_path os destination (vsix_name publisher extension_name version)
                      (fs w) = (res, fsys)"
              by (cases "resolve_path os destination (vsix_name publisher extension_name version)
                      (fs w)")
            show ?thesis
            proof (cases res)
              case (Inl e)
              with res Some Inr \<open>json_value response = Some extension_data\<close> True Response ms
              show ?thesis by (simp add: dve_stages)
            next
              case inr: (Inr file_path)
              with res Some Inr \<open>json_value response = Some extension_data\<close> True Response
              show ?thesis by (simp add: dve_stages fetch)
            qed
          qed
        qed
      qed
    qed
  qed
qed


lemma banner_stdout:
  "\<exists>ms. stdout (banner self p n w) = stdout w @ ms \<and> (\<not> self_print self \<longrightarrow> ms = [])
     \<and> (self_print self \<longrightarrow> ms \<noteq> []) \<and> list_all pipeline_message ms"
  by (simp add: banner_def pipeline_message_def)

lemma download_stdout:
  "\<exists>msgs. stdout (snd (download os net self w)) = stdout w @ msgs
     \<and> (\<not> self_print self \<longrightarrow> msgs = []) \<and> (self_print self \<longrightarrow> msgs \<noteq> [])
     \<and> list_all pipeline_message msgs"
proof -
  let ?ext = "py_strip (opt_str (self_extension self))"
  have invalid: "\<exists>msgs. stdout (downloader_print self (invalid_message ?ext) w) = stdout w @ msgs
     \<and> (\<not> self_print self \<longrightarrow> msgs = []) \<and> (self_print self \<longrightarrow> msgs \<noteq> [])
     \<and> list_all pipeline_message msgs"
    by (simp add: invalid_message_def pipeline_message_def)
  have valid: "\<exists>msgs. stdout (snd (download_vscode_extension os net self p n (self_proxy self)
         (self_version self) (self_destination self) (self_no_cache self) (banner self p n w)))
       = stdout w @ msgs
     \<and> (\<not> self_print self \<longrightarrow> msgs = []) \<and> (self_print self \<longrightarrow> msgs \<noteq> [])
     \<and> list_all pipeline_message msgs" for p n
  proof -
    from banner_stdout [of self p n w] obtain ms where
      ms: "stdout (banner self p n w) = stdout w @ ms" "\<not> self_print self \<longrightarrow> ms = []"
        "list_all pipeline_message ms" by blast
    from dve_stdout [of os net self p n "self_proxy self" "self_version self"
        "self_destination self" "self_no_cache self" "banner self p n w"]
    obtain more where more: "stdout (snd (download_vscode_extension os net self p n (self_proxy self)
         (self_version self) (self_destination self) (self_no_cache self) (banner self p n w)))
       = stdout (banner self p n w) @ more" "\<not> self_print self \<longrightarrow> more = []"
        "self_print self \<longrightarrow> more \<noteq> []" "list_all pipeline_message more" by blast
    from ms more have "stdout (snd (download_vscode_extension os net self p n (self_proxy self)
         (self_version self) (self_destination self) (self_no_cache self) (banner self p n w)))
       = stdout w @ (ms @ more)
     \<and> (\<not> self_print self \<longrightarrow> ms @ more = []) \<and> (self_print self \<longrightarrow> ms @ more \<noteq> [])
     \<and> list_all pipeline_message (ms @ more)" by simp
    then show ?thesis by blast
  qed
  show ?thesis
  proof (cases "CHR ''.'' \<notin> set ?ext")
    case True
    with invalid show ?thesis by (simp add: download_def Let_def)
  next
    case False
    obtain p n where split: "split_first CHR ''.'' ?ext = (p, n)"
      by (cases "split_first CHR ''.'' ?ext")
    show ?thesis
    proof (cases "p = [] \<or> n = []")
      case True
      with False split invalid show ?thesis by (simp add: download_def Let_def)
    next
      case bothne: False
      with False split valid [of p n] show ?thesis by (simp add: download_def Let_def)
    qed
  qed
qed

lemma download_lines_stdout:
  "\<exists>msgs. stdout (snd (download_lines os net proxy version destination no_cache verbose ls w))
       = stdout w @ msgs
     \<and> (\<not> verbose \<longrightarrow> msgs = []) \<and> list_all pipeline_message msgs"
proof (induction ls arbitrary: w)
  case Nil
  show ?case by simp
next
  case (Cons line rest)
  let ?self = "\<lparr>self_extension = Some (py_strip line), self_proxy = proxy, self_version = version,
                 self_destination = destination, self_no_cache = no_cache,
                 self_print = verbose\<rparr>"
  show ?case
  proof (cases "py_strip line = []")
    case True
    with Cons.IH [of w] show ?thesis by (simp add: Let_def)
  next
    case False
    obtain r w1 where run: "download os net ?self w = (r, w1)" by (cases "download os net ?self w")
    from download_stdout [of os net ?self w] run obtain ms where
      ms: "stdout w1 = stdout w @ ms" "\<not> verbose \<longrightarrow> ms = []" "list_all pipeline_message ms"
      by auto
    show ?thesis
    proof (cases r)
      case Returned
      from Cons.IH [of w1] obtain more where
        more: "stdout (snd (download_lines os net proxy version destination no_cache verbose rest w1))
           = stdout w1 @ more" "\<not> verbose \<longrightarrow> more = []" "list_all pipeline_message more"
        by blast
      from ms more have "stdout (snd (download_lines os net proxy version destination no_cache verbose rest w1))
           = stdout w @ (ms @ more) \<and> (\<not> verbose \<longrightarrow> ms @ more = [])
           \<and> list_all pipeline_message (ms @ more)" by simp
      with False run Returned show ?thesis by (simp add: Let_def)
    next
      case (Raised e)
      with False run ms show ?thesis by (simp add: Let_def)
    qed
  qed
qed

lemma batch_stdout:
  "\<exists>msgs. stdout (snd (download_plugins_from_file os net file_path proxy version destination
       no_cache verbose w)) = stdout w @ msgs \<and> list_all pipeline_message msgs"
proof (cases "path_exists (fs w) file_path")
  case False
  then show ?thesis
    by (simp add: download_plugins_from_file_def py_print_def pipeline_message_def)
next
  case True
  show ?thesis
  proof (cases "os_readlines os (fs w) file_path")
    case (Inl e)
    with True show ?thesis by (simp add: download_plugins_from_file_def)
  next
    case (Inr extensions)
    from download_lines_stdout [of os net proxy version destination no_cache verbose extensions w]
    have "\<exists>msgs. stdout (snd (download_lines os net proxy version destination no_cache verbose
        extensions w)) = stdout w @ msgs \<and> list_all pipeline_message msgs" by blast
    with True Inr show ?thesis by (simp add: download_plugins_from_file_def)
  qed
qed

lemma batch_quiet:
  assumes "path_exists (fs w) file_path"
  shows "stdout (snd (download_plugins_from_file os net file_path proxy version destination
       no_cache False w)) = stdout w"
proof (cases "os_readlines os (fs w) file_path")
  case (Inl e)
  with assms show ?thesis by (simp add: download_plugins_from_file_def)
next
  case (Inr extensions)
  from download_lines_stdout [of os net proxy version destination no_cache False extensions w]
  have "stdout (snd (download_lines os net proxy version destination no_cache False
      extensions w)) = stdout w" by auto
  with assms Inr show ?thesis by (simp add: download_plugins_from_file_def)
qed

text \<open>Version selection, and the loop of the batch runner.\<close>

lemma py_get_raises: "py_get x k = Inl e \<Longrightarrow> e = AttributeError"
  by (cases x) simp_all

lemma py_index0_raises:
  "py_index0 x = Inl e \<Longrightarrow> e = IndexError \<or> e = TypeError \<or> (e = KeyError \<and> (\<exists>kvs. x = JObject kvs))"
  by (cases x rule: py_index0.cases) simp_all

lemma version_lookup_raises:
  assumes "version_lookup extension_data = Inl e"
  shows "e = AttributeError \<or> e = IndexError \<or> e = TypeError \<or> e = KeyError"
  using assms
  by (auto simp add: version_lookup_def exn_bind_def Let_def
      split: sum.splits if_splits dest: py_get_raises py_index0_raises)

lemma select_version_raises:
  "select_version specific_version extension_data = Inl e \<Longrightarrow> e = KeyError"
  by (auto simp add: select_version_def split: if_splits sum.splits dest: version_lookup_raises)

lemma not_found_reported:
  assumes "net (sent w) (metadata_request publisher extension_name proxy) = Response response"
    and "status_code response = 200"
    and "json_value response = Some extension_data"
    and "select_version specific_version extension_data = Inr None"
  shows "download_vscode_extension os net self publisher extension_name proxy specific_version
           destination no_cache w =
         (Returned,
          downloader_print self (''Extension not found: '' @ publisher @ ''.'' @ extension_name)
            (query_world self publisher extension_name proxy w))"
  using assms by (simp add: dve_stages)

lemma empty_results_not_found:
  "select_version None (JObject [(''results'', JArray [])]) = Inr None"
  by (simp add: select_version_def version_lookup_def exn_bind_def py_or_def str_truthy_def
      opt_str_def)

lemma download_lines_append:
  "download_lines os net proxy version destination no_cache verbose (xs @ ys) w =
     (case download_lines os net proxy version destination no_cache verbose xs w of
        (Returned, w1) \<Rightarrow> download_lines os net proxy version destination no_cache verbose ys w1
      | (Raised e, w1) \<Rightarrow> (Raised e, w1))"
  by (induction xs arbitrary: w) (auto simp add: Let_def split: prod.splits outcome.splits)

lemma batch_file_missing:
  "\<not> path_exists (fs w) file_path \<Longrightarrow>
   download_plugins_from_file os net file_path proxy version destination no_cache verbose w =
     (Returned, py_print (''File not found: '' @ file_path) w)"
  by (simp add: download_plugins_from_file_def)


text \<open>The example operating system on the paths of the examples.\<close>

lemma ancestors_examples:
  "ancestors ''extensions'' = []" "ancestors ''out'' = []" "ancestors ''f/sub'' = [''f'']"
  by code_simp+

lemma list_file_decodes:
  "utf8_decode ''odd.one\<newline>pub.ext\<newline>'' = Some ''odd.one\<newline>pub.ext\<newline>''"
  by code_simp

text \<open>The definitions a run on a concrete input unfolds.\<close>

lemmas eval_defs =
  download_vscode_extension_def Let_def net_ok_def net_404_def loud_def world0_def
  metadata_request_def download_request_def select_version_def version_lookup_def
  metadata_2024_def exn_bind_def py_or_def str_truthy_def opt_str_def resolve_path_def
  vsix_name_def py_str_def path_join_def ensure_dir_def path_exists_def
  fetch_artifact_def send_def downloader_print_def py_print_def
  posix_os_def posix_makedirs_def posix_write_def parent_dir_def is_file_def
  posix_readlines_def ancestors_examples list_file_decodes

lemma posix_write_stores: "write_stores posix_os"
  by (auto simp add: write_stores_def posix_os_def posix_write_def
      split: if_splits option.splits node.splits)

section \<open>The claims\<close>

subsection \<open>C1: the default of the no-print flag\<close>

text \<open>
  Claim C1, as stated, is that without \<^verbatim>\<open>--no-print\<close> the value defaults to true and all
  messages are suppressed. The value does default to true, but \<^verbatim>\<open>cli\<close> hands it to the
  downloader as its \<^verbatim>\<open>print\<close> switch, so the messages are printed: here the
  invalid-identifier message of an invocation without the flag.
\<close>

theorem default_prints_messages:
  "\<not> flag_no_print call0
   \<and> click_flag True False (flag_no_print call0) = True
   \<and> cli_command False posix_os net_down call0 world0 =
       (Returned,
        \<lparr>fs = Map.empty, sent = [],
         stdout = [''Invalid extension identifier: badid. Use the form publisher.extension'']\<rparr>)"
  by (simp add: call0_def click_flag_def cli_command_def cli_def str_truthy_def opt_str_def
      download_def py_strip_def py_isspace_def invalid_message_def downloader_print_def
      py_print_def world0_def)

text \<open>
  Claim C1, amended. For every invocation without \<^verbatim>\<open>--no-print\<close> the flag's value defaults
  to true and is the print switch of the run, so messages are printed, not suppressed: a
  single-identifier run prints at least one message whatever its outcome. The pipeline's
  messages are suppressed when the value is false: then a single-identifier run, and a
  batch run over an existing list file, print nothing.
\<close>

theorem no_print_default:
  assumes "\<not> flag_no_print call"
  shows "click_flag True flag_value (flag_no_print call) = True
       \<and> cli_command flag_value os net call w =
           cli os net (arg_extension call) (opt_file call) (opt_proxy call) (opt_version call)
             (opt_destination call) (flag_no_cache call) True w
       \<and> (\<not> str_truthy (opt_file call) \<and> str_truthy (arg_extension call) \<longrightarrow>
            (\<exists>msg msgs. stdout (snd (cli_command flag_value os net call w)) = stdout w @ msg # msgs)
          \<and> stdout (snd (cli os net (arg_extension call) (opt_file call) (opt_proxy call)
               (opt_version call) (opt_destination call) (flag_no_cache call) False w)) = stdout w)
       \<and> (str_truthy (opt_file call) \<and> path_exists (fs w) (opt_str (opt_file call)) \<longrightarrow>
            stdout (snd (cli os net (arg_extension call) (opt_file call) (opt_proxy call)
               (opt_version call) (opt_destination call) (flag_no_cache call) False w)) = stdout w)"
proof -
  let ?loud = "\<lparr>self_extension = arg_extension call, self_proxy = opt_proxy call,
      self_version = opt_version call, self_destination = opt_destination call,
      self_no_cache = flag_no_cache call, self_print = True\<rparr>"
  let ?quiet = "\<lparr>self_extension = arg_extension call, self_proxy = opt_proxy call,
      self_version = opt_version call, self_destination = opt_destination call,
      self_no_cache = flag_no_cache call, self_print = False\<rparr>"
  have dflt: "click_flag True flag_value (flag_no_print call) = True"
    using assms by (simp add: click_flag_def)
  have run: "cli_command flag_value os net call w =
           cli os net (arg_extension call) (opt_file call) (opt_proxy call) (opt_version call)
             (opt_destination call) (flag_no_cache call) True w"
    using assms by (simp add: cli_command_def click_flag_def)
  have single: "(\<exists>msg msgs. stdout (snd (cli_command flag_value os net call w)) = stdout w @ msg # msgs)
       \<and> stdout (snd (cli os net (arg_extension call) (opt_file call) (opt_proxy call)
               (opt_version call) (opt_destination call) (flag_no_cache call) False w)) = stdout w"
    if mode: "\<not> str_truthy (opt_file call) \<and> str_truthy (arg_extension call)"
  proof -
    from download_stdout [of os net ?loud w] obtain msgs where
      "stdout (snd (download os net ?loud w)) = stdout w @ msgs" "msgs \<noteq> []" by auto
    then obtain msg rest where "stdout (snd (download os net ?loud w)) = stdout w @ msg # rest"
      by (cases msgs) auto
    moreover from download_stdout [of os net ?quiet w]
    have "stdout (snd (download os net ?quiet w)) = stdout w" by auto
    ultimately show ?thesis using mode run by (auto simp add: cli_def)
  qed
  have batch: "stdout (snd (cli os net (arg_extension call) (opt_file call) (opt_proxy call)
               (opt_version call) (opt_destination call) (flag_no_cache call) False w)) = stdout w"
    if mode: "str_truthy (opt_file call) \<and> path_exists (fs w) (opt_str (opt_file call))"
    using mode batch_quiet [of w "opt_str (opt_file call)" os net "opt_proxy call"
        "opt_version call" "opt_destination call" "flag_no_cache call"]
    by (simp add: cli_def)
  from dflt run single batch show ?thesis by blast
qed

theorem no_print_default_witness:
  "\<not> flag_no_print call0
   \<and> \<not> str_truthy (opt_file call0) \<and> str_truthy (arg_extension call0)
   \<and> cli_command False posix_os net_down call0 world0 =
       cli posix_os net_down (Some ''badid'') None None None None False True world0
   \<and> stdout (snd (cli_command False posix_os net_down call0 world0)) =
       [''Invalid extension identifier: badid. Use the form publisher.extension'']
   \<and> stdout (snd (cli posix_os net_down (Some ''badid'') None None None None False False world0)) = []"
proof -
  have h: "\<not> flag_no_print call0" by (simp add: call0_def)
  have mode: "\<not> str_truthy (opt_file call0) \<and> str_truthy (arg_extension call0)"
    by (simp add: call0_def str_truthy_def opt_str_def)
  have out: "stdout (snd (cli_command False posix_os net_down call0 world0)) =
       [''Invalid extension identifier: badid. Use the form publisher.extension'']"
    by (simp add: call0_def click_flag_def cli_command_def cli_def str_truthy_def opt_str_def
      download_def py_strip_def py_isspace_def invalid_message_def downloader_print_def
      py_print_def world0_def)
  from no_print_default [OF h, of False posix_os net_down world0] mode
  have "cli_command False posix_os net_down call0 world0 =
       cli posix_os net_down (Some ''badid'') None None None None False True world0"
    "stdout (snd (cli posix_os net_down (Some ''badid'') None None None None False False world0)) = []"
    by (simp_all add: call0_def world0_def)
  with h mode out show ?thesis by simp
qed

subsection \<open>C2: the identifier check\<close>

text \<open>
  Claim C2. \<^verbatim>\<open>download\<close> trims the raw identifier. If the trimmed string has no dot, or
  nothing before its first dot, or nothing after it, the run is rejected: it returns normally
  and its whole effect is the invalid-identifier message given to \<^verbatim>\<open>_print\<close>, with no
  request sent. Otherwise (and only then) the pipeline runs, and a metadata request is sent,
  with the publisher the part before the first dot and the name the whole remainder.
\<close>

theorem identifier_check:
  assumes "download os net self w = (r, w')"
  shows "(let ext = py_strip (opt_str (self_extension self)) in
          if CHR ''.'' \<notin> set ext
             \<or> takeWhile (\<lambda>c. c \<noteq> CHR ''.'') ext = []
             \<or> tl (dropWhile (\<lambda>c. c \<noteq> CHR ''.'') ext) = []
          then r = Returned \<and> sent w' = sent w \<and> fs w' = fs w
             \<and> w' = downloader_print self
                      (''Invalid extension identifier: '' @ ext
                         @ ''. Use the form publisher.extension'') w
          else \<exists>publisher extension_name.
                 ext = publisher @ ''.'' @ extension_name
               \<and> CHR ''.'' \<notin> set publisher \<and> publisher \<noteq> [] \<and> extension_name \<noteq> []
               \<and> (r, w') =
                   download_vscode_extension os net self publisher extension_name (self_proxy self)
                     (self_version self) (self_destination self) (self_no_cache self)
                     (banner self publisher extension_name w)
               \<and> (\<exists>rest. sent w' = sent w @ metadata_request publisher extension_name
                                                 (self_proxy self) # rest))"
proof -
  let ?ext = "py_strip (opt_str (self_extension self))"
  let ?p = "takeWhile (\<lambda>c. c \<noteq> CHR ''.'') ?ext"
  let ?n = "tl (dropWhile (\<lambda>c. c \<noteq> CHR ''.'') ?ext)"
  show ?thesis
  proof (cases "CHR ''.'' \<notin> set ?ext")
    case True
    with assms show ?thesis by (auto simp add: download_def Let_def invalid_message_def)
  next
    case False
    then have dot: "CHR ''.'' \<in> set ?ext" by simp
    have split: "split_first CHR ''.'' ?ext = (?p, ?n)" using dot by (rule split_first_spec)
    show ?thesis
    proof (cases "?p = [] \<or> ?n = []")
      case True
      with assms dot split show ?thesis
        by (auto simp add: download_def Let_def invalid_message_def)
    next
      case False
      from split_first_parts [OF dot split]
      have parts: "?ext = ?p @ ''.'' @ ?n" "CHR ''.'' \<notin> set ?p" by simp_all
      from assms dot split False
      have run: "(r, w') = download_vscode_extension os net self ?p ?n (self_proxy self)
                     (self_version self) (self_destination self) (self_no_cache self)
                     (banner self ?p ?n w)"
        by (simp add: download_def Let_def)
      from dve_sends_post [of os net self ?p ?n "self_proxy self" "self_version self"
          "self_destination self" "self_no_cache self" "banner self ?p ?n w"] run
      have sends: "\<exists>rest. sent w' = sent w @ metadata_request ?p ?n (self_proxy self) # rest"
        by (metis banner_simps(2) snd_conv)
      from False dot parts run sends show ?thesis
        unfolding Let_def by (simp only: if_False not_False_eq_True simp_thms) blast
    qed
  qed
qed

theorem identifier_check_witness:
  "py_strip (opt_str (self_extension (loud '' badid ''))) = ''badid''
   \<and> download posix_os net_down (loud '' badid '') world0 =
       (Returned,
        \<lparr>fs = Map.empty, sent = [],
         stdout = [''Invalid extension identifier: badid. Use the form publisher.extension'']\<rparr>)
   \<and> py_strip (opt_str (self_extension (loud ''ms-python.python.x''))) = ''ms-python.python.x''
   \<and> sent (snd (download posix_os net_down (loud ''ms-python.python.x'') world0)) =
       [metadata_request ''ms-python'' ''python.x'' None]"
proof -
  let ?bad = "download posix_os net_down (loud '' badid '') world0"
  let ?good = "download posix_os net_down (loud ''ms-python.python.x'') world0"
  have s1: "py_strip (opt_str (self_extension (loud '' badid ''))) = ''badid''"
    by (simp add: py_strip_def py_isspace_def opt_str_def loud_def)
  have s2: "py_strip (opt_str (self_extension (loud ''ms-python.python.x''))) = ''ms-python.python.x''"
    by (simp add: py_strip_def py_isspace_def opt_str_def loud_def)
  have b: "?bad = (fst ?bad, snd ?bad)" by simp
  from identifier_check [OF b]
  have "fst ?bad = Returned"
    "snd ?bad = downloader_print (loud '' badid '')
        (''Invalid extension identifier: '' @ ''badid'' @ ''. Use the form publisher.extension'')
        world0"
    by (simp_all add: s1 Let_def)
  then have bad: "?bad = (Returned,
        \<lparr>fs = Map.empty, sent = [],
         stdout = [''Invalid extension identifier: badid. Use the form publisher.extension'']\<rparr>)"
    by (cases ?bad) (simp add: downloader_print_def py_print_def loud_def world0_def)
  have g: "?good = (fst ?good, snd ?good)" by simp
  from identifier_check [OF g]
  obtain publisher extension_name where
    "''ms-python.python.x'' = publisher @ ''.'' @ extension_name" "CHR ''.'' \<notin> set publisher"
    by (auto simp add: s2 Let_def)
  have good: "sent (snd ?good) = [metadata_request ''ms-python'' ''python.x'' None]"
    by (simp add: download_def py_strip_def py_isspace_def banner_def eval_defs net_down_def)
  from s1 s2 bad good show ?thesis by simp
qed

subsection \<open>C3: a metadata answer without a version\<close>

text \<open>
  Claim C3: when a level of \<^verbatim>\<open>results[0].extensions[0].versions[0].version\<close> is absent or
  empty the pipeline reports "extension not found" and returns normally. The code does so
  through its four checks and its \<^verbatim>\<open>except (AttributeError, IndexError, TypeError)\<close>, but a
  level that is a non-empty object has no element \<^verbatim>\<open>0\<close> and indexing it raises KeyError,
  which the clause does not name. On a parseable answer whose \<^verbatim>\<open>results\<close> is such an
  object the method raises, and no "not found" message is printed.
\<close>

theorem not_found_keyerror:
  "version_lookup metadata_odd = Inl KeyError
   \<and> download_vscode_extension posix_os net_odd (loud ''odd.one'') ''odd'' ''one'' None None None False world0 =
       (Raised KeyError,
        \<lparr>fs = Map.empty, sent = [metadata_request ''odd'' ''one'' None],
         stdout = [''Querying Marketplace API...'']\<rparr>)"
  by (simp add: eval_defs net_odd_def metadata_odd_def payload_def)

subsection \<open>C4: an explicit version\<close>

text \<open>
  Claim C4, as stated, is that every explicit version override is used verbatim. The code
  tests the override with \<^verbatim>\<open>if specific_version\<close>, so the empty string counts as no
  override: with it the version is extracted from the metadata answer.
\<close>

theorem empty_version_override:
  "sent (snd (download_vscode_extension posix_os net_ok (loud ''pub.ext'') ''pub'' ''ext'' None
            (Some []) None False world0))
     = [metadata_request ''pub'' ''ext'' None,
        download_request ''pub'' ''ext'' (JString ''2024.1.0'') None]
   \<and> fs (snd (download_vscode_extension posix_os net_ok (loud ''pub.ext'') ''pub'' ''ext'' None
            (Some []) None False world0)) ''extensions/pub.ext-2024.1.0.vsix'' = Some (File ''PK'')
   \<and> fs (snd (download_vscode_extension posix_os net_ok (loud ''pub.ext'') ''pub'' ''ext'' None
            (Some []) None False world0)) ''extensions/pub.ext-.vsix'' = None"
  by (simp add: eval_defs)

text \<open>
  Claim C4, amended. For every run with a non-empty version override: version selection gives
  that string whatever the metadata body is; exactly one metadata POST is issued; a transport
  failure, a status other than 200 or an unparsable body ends the run with no further request
  and no change to the file system; otherwise path resolution follows, with the override
  verbatim in the file name: when \<^verbatim>\<open>os.makedirs\<close> raises there, the exception leaves the
  run with no further request; when it completes, the override stands verbatim in the
  resolved file path and in the URL of the download GET, which is issued unless the file is
  cached.
\<close>

theorem version_override:
  assumes "str_truthy specific_version"
    and "download_vscode_extension os net self publisher extension_name proxy specific_version
           destination no_cache w = (r, w')"
  shows "(\<forall>extension_data.
            select_version specific_version extension_data =
              Inr (Some (JString (opt_str specific_version))))
       \<and> length (filter (\<lambda>q. req_method q = POST) (sent w')) =
           Suc (length (filter (\<lambda>q. req_method q = POST) (sent w)))
       \<and> (case net (sent w) (metadata_request publisher extension_name proxy) of
            RequestException e \<Rightarrow>
              r = Returned \<and> fs w' = fs w
              \<and> sent w' = sent w @ [metadata_request publisher extension_name proxy]
          | Response response \<Rightarrow>
              if status_code response \<noteq> 200 \<or> json_value response = None then
                r = Returned \<and> fs w' = fs w
                \<and> sent w' = sent w @ [metadata_request publisher extension_name proxy]
              else
                (case resolve_path os destination
                        (publisher @ ''.'' @ extension_name @ ''-'' @ opt_str specific_version
                           @ ''.vsix'') (fs w) of
                   (Inl e, fsys) \<Rightarrow>
                     r = Raised e \<and> fs w' = fsys
                     \<and> sent w' = sent w @ [metadata_request publisher extension_name proxy]
                 | (Inr file_path, fsys) \<Rightarrow>
                     file_path =
                       (let d = (if str_truthy destination then opt_str destination
                                 else ''extensions'');
                            n = publisher @ ''.'' @ extension_name @ ''-''
                                  @ opt_str specific_version @ ''.vsix''
                        in if hd n = CHR ''/'' then n
                           else if last d = CHR ''/'' then d @ n
                           else d @ ''/'' @ n)
                     \<and> sent w' = sent w @ metadata_request publisher extension_name proxy #
                         (if no_cache \<or> \<not> path_exists fsys file_path
                          then [\<lparr>req_method = GET,
                                 req_url = ''https://'' @ publisher
                                   @ ''.gallery.vsassets.io/_apis/public/gallery/publisher/''
                                   @ publisher @ ''/extension/'' @ extension_name @ ''/''
                                   @ opt_str specific_version
                                   @ ''/assetbyname/Microsoft.VisualStudio.Services.VSIXPackage'',
                                 req_headers = [], req_data = None, req_timeout = 60,
                                 req_proxies = session_proxies proxy\<rparr>]
                          else [])))"
proof -
  let ?post = "metadata_request publisher extension_name proxy"
  let ?v = "JString (opt_str specific_version)"
  let ?d = "if str_truthy destination then opt_str destination else ''extensions''"
  let ?n = "publisher @ ''.'' @ extension_name @ ''-'' @ opt_str specific_version @ ''.vsix''"
  let ?path = "if hd ?n = CHR ''/'' then ?n else if last ?d = CHR ''/'' then ?d @ ?n
               else ?d @ ''/'' @ ?n"
  have sel: "\<And>d. select_version specific_version d = Inr (Some ?v)"
    using assms(1) by (rule select_version_override)
  have post: "req_method ?post = POST" by (simp add: metadata_request_def)
  have get: "req_method (download_request publisher extension_name ?v proxy) = GET"
    by (simp add: download_request_def)
  have name: "vsix_name publisher extension_name ?v = ?n"
    by (simp add: vsix_name_def py_str_def)
  have req: "download_request publisher extension_name ?v proxy =
      \<lparr>req_method = GET,
       req_url = ''https://'' @ publisher
         @ ''.gallery.vsassets.io/_apis/public/gallery/publisher/''
         @ publisher @ ''/extension/'' @ extension_name @ ''/''
         @ opt_str specific_version
         @ ''/assetbyname/Microsoft.VisualStudio.Services.VSIXPackage'',
       req_headers = [], req_data = None, req_timeout = 60,
       req_proxies = session_proxies proxy\<rparr>"
    by (simp add: download_request_def download_url_def py_str_def)
  have d: "?d \<noteq> []" by (simp add: str_truthy_def)
  have n: "?n \<noteq> []" by simp
  have join: "path_join ?d ?n = ?path"
    using d n unfolding path_join_def by (simp only: simp_thms if_False append_assoc)
  have third: "(case net (sent w) ?post of
            RequestException e \<Rightarrow>
              r = Returned \<and> fs w' = fs w \<and> sent w' = sent w @ [?post]
          | Response response \<Rightarrow>
              if status_code response \<noteq> 200 \<or> json_value response = None then
                r = Returned \<and> fs w' = fs w \<and> sent w' = sent w @ [?post]
              else
                (case resolve_path os destination (vsix_name publisher extension_name ?v) (fs w) of
                   (Inl e, fsys) \<Rightarrow> r = Raised e \<and> fs w' = fsys \<and> sent w' = sent w @ [?post]
                 | (Inr file_path, fsys) \<Rightarrow>
                     file_path = ?path
                     \<and> sent w' = sent w @ ?post #
                         (if no_cache \<or> \<not> path_exists fsys file_path
                          then [download_request publisher extension_name ?v proxy]
                          else [])))"
  proof (cases "net (sent w) ?post")
    case (RequestException e)
    with assms(2) show ?thesis by (auto simp add: dve_stages)
  next
    case (Response response)
    show ?thesis
    proof (cases "status_code response \<noteq> 200 \<or> json_value response = None")
      case True
      with Response assms(2) show ?thesis
        by (auto simp add: dve_stages Let_def split: if_splits)
    next
      case False
      then obtain d where ok: "status_code response = 200" "json_value response = Some d" by auto
      obtain res fsys where
        res: "resolve_path os destination (vsix_name publisher extension_name ?v) (fs w)
                = (res, fsys)"
        by (cases "resolve_path os destination (vsix_name publisher extension_name ?v) (fs w)")
      show ?thesis
      proof (cases res)
        case (Inl e)
        from dve_resolve_raises [of net w, OF Response ok sel res [unfolded Inl]] assms(2)
        have "r = Raised e" "fs w' = fsys" "sent w' = sent w @ [?post]" by auto
        with res Inl Response ok show ?thesis by simp
      next
        case (Inr file_path)
        from dve_requests [of net w, OF Response ok sel res [unfolded Inr] assms(2)]
        have "sent w' = sent w @ ?post #
           (if no_cache \<or> \<not> path_exists fsys file_path
            then [download_request publisher extension_name ?v proxy] else [])" by simp
        moreover from resolve_path_file [OF res [unfolded Inr]] join name
        have "file_path = ?path" by simp
        ultimately show ?thesis using res Inr Response ok by simp
      qed
    qed
  qed
  have count: "length (filter (\<lambda>q. req_method q = POST) (sent w')) =
           Suc (length (filter (\<lambda>q. req_method q = POST) (sent w)))"
    using third post get
    by (auto split: net_outcome.splits if_splits prod.splits sum.splits)
  from sel have first: "\<forall>extension_data.
      select_version specific_version extension_data = Inr (Some ?v)" by blast
  show ?thesis
    using first count third unfolding name req Let_def by (intro conjI)
qed

theorem version_override_witness:
  "str_truthy (Some ''1.2.3'')
   \<and> sent (snd (download_vscode_extension posix_os net_ok (loud ''pub.ext'') ''pub'' ''ext'' None
            (Some ''1.2.3'') None False world0))
     = [metadata_request ''pub'' ''ext'' None,
        \<lparr>req_method = GET,
         req_url = ''https://pub.gallery.vsassets.io/_apis/public/gallery/publisher/pub/extension/ext/1.2.3/assetbyname/Microsoft.VisualStudio.Services.VSIXPackage'',
         req_headers = [], req_data = None, req_timeout = 60, req_proxies = []\<rparr>]
   \<and> select_version (Some ''1.2.3'') metadata_2024 = Inr (Some (JString ''1.2.3''))
   \<and> fst (download_vscode_extension posix_os net_ok (loud ''pub.ext'') ''pub'' ''ext'' None
            (Some ''1.2.3'') (Some ''f/sub'') False world_f) = Raised NotADirectoryError
   \<and> sent (snd (download_vscode_extension posix_os net_ok (loud ''pub.ext'') ''pub'' ''ext'' None
            (Some ''1.2.3'') (Some ''f/sub'') False world_f))
     = [metadata_request ''pub'' ''ext'' None]"
proof -
  let ?run = "download_vscode_extension posix_os net_ok (loud ''pub.ext'') ''pub'' ''ext'' None
            (Some ''1.2.3'') None False world0"
  let ?run' = "download_vscode_extension posix_os net_ok (loud ''pub.ext'') ''pub'' ''ext'' None
            (Some ''1.2.3'') (Some ''f/sub'') False world_f"
  have h1: "str_truthy (Some ''1.2.3'')" by (simp add: str_truthy_def opt_str_def)
  have h2: "?run = (fst ?run, snd ?run)" by simp
  have h2': "?run' = (fst ?run', snd ?run')" by simp
  from version_override [OF h1 h2] h1
  have a: "sent (snd ?run)
     = [metadata_request ''pub'' ''ext'' None,
        \<lparr>req_method = GET,
         req_url = ''https://pub.gallery.vsassets.io/_apis/public/gallery/publisher/pub/extension/ext/1.2.3/assetbyname/Microsoft.VisualStudio.Services.VSIXPackage'',
         req_headers = [], req_data = None, req_timeout = 60, req_proxies = []\<rparr>]"
    "select_version (Some ''1.2.3'') metadata_2024 = Inr (Some (JString ''1.2.3''))"
    by (simp_all add: net_ok_def metadata_request_def resolve_path_def str_truthy_def opt_str_def
        ensure_dir_def path_exists_def posix_os_def posix_makedirs_def is_file_def
        ancestors_examples path_join_def world0_def session_proxies_def)
  from version_override [OF h1 h2']
  have b: "fst ?run' = Raised NotADirectoryError"
    "sent (snd ?run') = [metadata_request ''pub'' ''ext'' None]"
    by (simp_all add: net_ok_def metadata_request_def resolve_path_def str_truthy_def opt_str_def
        ensure_dir_def path_exists_def posix_os_def posix_makedirs_def is_file_def
        ancestors_examples world_f_def)
  from h1 a b show ?thesis by simp
qed

subsection \<open>C5: the cache policy\<close>

text \<open>
  Claim C5, as stated, is about every run that reaches path resolution. Path resolution
  creates the directory with \<^verbatim>\<open>os.makedirs\<close> when nothing exists at its path, and the code
  has no handler for what that call raises. With the destination \<^verbatim>\<open>f/sub\<close>, where \<^verbatim>\<open>f\<close> is a
  regular file, the run reaches path resolution, nothing exists at the path the file would
  have, and yet no download request is issued: the run ends with NotADirectoryError.
\<close>

theorem makedirs_can_fail:
  "net_ok (sent world_f) (metadata_request ''pub'' ''ext'' None) =
     Response \<lparr>status_code = 200, content = [], json_value = Some metadata_2024\<rparr>
   \<and> select_version None metadata_2024 = Inr (Some (JString ''2024.1.0''))
   \<and> \<not> path_exists (fs world_f) ''f/sub''
   \<and> os_makedirs posix_os (fs world_f) ''f/sub'' = (Some NotADirectoryError, fs world_f)
   \<and> \<not> path_exists (fs world_f) ''f/sub/pub.ext-2024.1.0.vsix''
   \<and> download_vscode_extension posix_os net_ok (loud ''pub.ext'') ''pub'' ''ext'' None None
       (Some ''f/sub'') False world_f =
       (Raised NotADirectoryError,
        \<lparr>fs = [''f'' \<mapsto> File ''x''], sent = [metadata_request ''pub'' ''ext'' None],
         stdout = [''Querying Marketplace API...'']\<rparr>)"
  by (simp add: eval_defs world_f_def)

text \<open>
  Claim C5, amended. For every run whose path resolution completes (the directory exists,
  or \<^verbatim>\<open>os.makedirs\<close> returns), the download GET is issued if and only if \<^verbatim>\<open>no_cache\<close> is set
  or nothing exists at the resolved path; when it is skipped the run returns normally,
  reports through \<^verbatim>\<open>_print\<close> that the file already exists, and writes nothing: the file
  system is the one path resolution left, which is the one before the run when the
  directory existed.
\<close>

theorem cache_policy:
  assumes "net (sent w) (metadata_request publisher extension_name proxy) = Response response"
    and "status_code response = 200"
    and "json_value response = Some extension_data"
    and "select_version specific_version extension_data = Inr (Some version)"
    and "resolve_path os destination (vsix_name publisher extension_name version) (fs w)
           = (Inr file_path, fsys)"
    and "download_vscode_extension os net self publisher extension_name proxy specific_version
           destination no_cache w = (r, w')"
  shows "sent w' = sent w @ metadata_request publisher extension_name proxy #
           (if no_cache \<or> \<not> path_exists fsys file_path
            then [download_request publisher extension_name version proxy] else [])
       \<and> (\<not> no_cache \<and> path_exists fsys file_path \<longrightarrow>
            r = Returned \<and> fs w' = fsys
            \<and> (path_exists (fs w)
                  (if str_truthy destination then opt_str destination else ''extensions'')
                \<longrightarrow> fs w' = fs w)
            \<and> stdout w' = stdout w @
                 (if self_print self
                  then (if str_truthy proxy then [''Using proxy: '' @ opt_str proxy] else [])
                       @ [''Querying Marketplace API...'',
                          ''File '' @ file_path @ '' already exists.'',
                          ''Use --no-cache to force re-download.'']
                  else []))"
proof -
  let ?w = "(query_world self publisher extension_name proxy w)\<lparr>fs := fsys\<rparr>"
  let ?dir = "if str_truthy destination then opt_str destination else ''extensions''"
  have run: "fetch_artifact os net self publisher extension_name proxy version no_cache
      file_path ?w = (r, w')"
    using dve_fetch [of net w, OF assms(1-5)] assms(6) by simp
  have kept: "fsys = fs w" if "path_exists (fs w) ?dir"
    using resolve_path_existing [OF that, of os "vsix_name publisher extension_name version"]
      assms(5) by simp
  show ?thesis
  proof (cases "no_cache \<or> \<not> path_exists fsys file_path")
    case True
    then have "no_cache \<or> \<not> path_exists (fs ?w) file_path" by simp
    from fetch_artifact_get [OF this run] True show ?thesis by auto
  next
    case False
    then have skip: "\<not> no_cache" "path_exists (fs ?w) file_path" by simp_all
    from fetch_artifact_skip [OF skip] run
    have "r = Returned" "sent w' = sent w @ [metadata_request publisher extension_name proxy]"
      "fs w' = fsys"
      "stdout w' = stdout w @
                 (if self_print self
                  then (if str_truthy proxy then [''Using proxy: '' @ opt_str proxy] else [])
                       @ [''Querying Marketplace API...'',
                          ''File '' @ file_path @ '' already exists.'',
                          ''Use --no-cache to force re-download.'']
                  else [])"
      by auto
    with kept False show ?thesis by simp
  qed
qed

theorem cache_policy_witness:
  "net_ok (sent world_cached) (metadata_request ''pub'' ''ext'' None)
      = Response \<lparr>status_code = 200, content = [], json_value = Some metadata_2024\<rparr>
   \<and> select_version None metadata_2024 = Inr (Some (JString ''2024.1.0''))
   \<and> resolve_path posix_os None (vsix_name ''pub'' ''ext'' (JString ''2024.1.0''))
        (fs world_cached)
      = (Inr ''extensions/pub.ext-2024.1.0.vsix'', fs world_cached)
   \<and> path_exists (fs world_cached) ''extensions/pub.ext-2024.1.0.vsix''
   \<and> fst (download_vscode_extension posix_os net_ok (loud ''pub.ext'') ''pub'' ''ext'' None None
            None False world_cached) = Returned
   \<and> sent (snd (download_vscode_extension posix_os net_ok (loud ''pub.ext'') ''pub'' ''ext'' None
            None None False world_cached)) = [metadata_request ''pub'' ''ext'' None]
   \<and> fs (snd (download_vscode_extension posix_os net_ok (loud ''pub.ext'') ''pub'' ''ext'' None
            None None False world_cached)) = fs world_cached
   \<and> fs world_cached ''extensions/pub.ext-2024.1.0.vsix'' = Some (File ''old'')
   \<and> stdout (snd (download_vscode_extension posix_os net_ok (loud ''pub.ext'') ''pub'' ''ext''
            None None None False world_cached))
      = [''Querying Marketplace API...'',
         ''File extensions/pub.ext-2024.1.0.vsix already exists.'',
         ''Use --no-cache to force re-download.'']"
proof -
  let ?resp = "\<lparr>status_code = 200, content = [], json_value = Some metadata_2024\<rparr>"
  let ?run = "download_vscode_extension posix_os net_ok (loud ''pub.ext'') ''pub'' ''ext'' None
            None None False world_cached"
  have h1: "net_ok (sent world_cached) (metadata_request ''pub'' ''ext'' None) = Response ?resp"
    by (simp add: net_ok_def metadata_request_def)
  have h2: "status_code ?resp = 200" by simp
  have h3: "json_value ?resp = Some metadata_2024" by simp
  have h4: "select_version None metadata_2024 = Inr (Some (JString ''2024.1.0''))"
    by (simp add: select_version_def version_lookup_def metadata_2024_def exn_bind_def py_or_def
        str_truthy_def opt_str_def)
  have h5: "resolve_path posix_os None (vsix_name ''pub'' ''ext'' (JString ''2024.1.0''))
        (fs world_cached)
      = (Inr ''extensions/pub.ext-2024.1.0.vsix'', fs world_cached)"
    by (simp add: resolve_path_def vsix_name_def py_str_def str_truthy_def opt_str_def
        path_join_def ensure_dir_def path_exists_def world_cached_def)
  have h6: "path_exists (fs world_cached) ''extensions/pub.ext-2024.1.0.vsix''"
    by (simp add: path_exists_def world_cached_def)
  have h7: "?run = (fst ?run, snd ?run)" by simp
  have dir: "path_exists (fs world_cached) ''extensions''"
    by (simp add: path_exists_def world_cached_def)
  have old: "fs world_cached ''extensions/pub.ext-2024.1.0.vsix'' = Some (File ''old'')"
    by (simp add: world_cached_def)
  from cache_policy [of net_ok, OF h1 h2 h3 h4 h5 h7] h6 dir
  have "fst ?run = Returned" "sent (snd ?run) = [metadata_request ''pub'' ''ext'' None]"
    "fs (snd ?run) = fs world_cached"
    "stdout (snd ?run) = [''Querying Marketplace API...'',
         ''File extensions/pub.ext-2024.1.0.vsix already exists.'',
         ''Use --no-cache to force re-download.'']"
    by (simp_all add: loud_def str_truthy_def opt_str_def) (simp_all add: world_cached_def)
  with h1 h4 h5 h6 old show ?thesis by simp
qed

subsection \<open>C6: the two requests\<close>

text \<open>
  Claim C6. For every publisher and name, the requests a run of
  \<^verbatim>\<open>_download_vscode_extension\<close> sends are the metadata POST to the fixed query URL, with
  the fixed headers and the JSON body selecting \<^verbatim>\<open>publisher.name\<close> with flags 914, and
  after it at most one request: the GET to the asset URL built from the publisher, the name
  and the version resolved from the answer to the POST.
\<close>

theorem requests_conform:
  assumes "download_vscode_extension os net self publisher extension_name proxy specific_version
             destination no_cache w = (r, w')"
  shows "\<exists>rest. sent w' = sent w @
           \<lparr>req_method = POST,
            req_url = ''https://marketplace.visualstudio.com/_apis/public/gallery/extensionquery'',
            req_headers = [(''Content-Type'', ''application/json''),
                           (''Accept'', ''application/json;api-version=3.0-preview.1''),
                           (''User-Agent'', ''Offline VSIX/1.0'')],
            req_data = Some (JObject [
               (''filters'', JArray [JObject [
                  (''criteria'', JArray [JObject [
                     (''filterType'', JInt 7),
                     (''value'', JString (publisher @ ''.'' @ extension_name))]])]]),
               (''flags'', JInt 914)]),
            req_timeout = 20, req_proxies = session_proxies proxy\<rparr> # rest
       \<and> (rest = [] \<or>
           (\<exists>response extension_data version.
              net (sent w) (metadata_request publisher extension_name proxy) = Response response
              \<and> json_value response = Some extension_data
              \<and> select_version specific_version extension_data = Inr (Some version)
              \<and> rest = [\<lparr>req_method = GET,
                   req_url = ''https://'' @ publisher
                     @ ''.gallery.vsassets.io/_apis/public/gallery/publisher/'' @ publisher
                     @ ''/extension/'' @ extension_name @ ''/'' @ py_str version
                     @ ''/assetbyname/Microsoft.VisualStudio.Services.VSIXPackage'',
                   req_headers = [], req_data = None, req_timeout = 60,
                   req_proxies = session_proxies proxy\<rparr>]))"
proof -
  let ?post = "metadata_request publisher extension_name proxy"
  have post: "?post = \<lparr>req_method = POST,
            req_url = ''https://marketplace.visualstudio.com/_apis/public/gallery/extensionquery'',
            req_headers = [(''Content-Type'', ''application/json''),
                           (''Accept'', ''application/json;api-version=3.0-preview.1''),
                           (''User-Agent'', ''Offline VSIX/1.0'')],
            req_data = Some (JObject [
               (''filters'', JArray [JObject [
                  (''criteria'', JArray [JObject [
                     (''filterType'', JInt 7),
                     (''value'', JString (publisher @ ''.'' @ extension_name))]])]]),
               (''flags'', JInt 914)]),
            req_timeout = 20, req_proxies = session_proxies proxy\<rparr>"
    by (simp add: metadata_request_def api_url_def headers_def payload_def)
  have get: "\<And>version. download_request publisher extension_name version proxy =
     \<lparr>req_method = GET,
                   req_url = ''https://'' @ publisher
                     @ ''.gallery.vsassets.io/_apis/public/gallery/publisher/'' @ publisher
                     @ ''/extension/'' @ extension_name @ ''/'' @ py_str version
                     @ ''/assetbyname/Microsoft.VisualStudio.Services.VSIXPackage'',
                   req_headers = [], req_data = None, req_timeout = 60,
                   req_proxies = session_proxies proxy\<rparr>"
    by (simp add: download_request_def download_url_def)
  have "\<exists>rest. sent w' = sent w @ ?post # rest
       \<and> (rest = [] \<or>
           (\<exists>response extension_data version.
              net (sent w) ?post = Response response
              \<and> json_value response = Some extension_data
              \<and> select_version specific_version extension_data = Inr (Some version)
              \<and> rest = [download_request publisher extension_name version proxy]))"
  proof (cases "net (sent w) ?post")
    case (RequestException e)
    with assms show ?thesis by (auto simp add: dve_stages)
  next
    case (Response response)
    show ?thesis
    proof (cases "status_code response = 200")
      case False
      with Response assms show ?thesis by (auto simp add: dve_stages)
    next
      case True
      show ?thesis
      proof (cases "json_value response")
        case None
        with True Response assms show ?thesis by (auto simp add: dve_stages)
      next
        case (Some extension_data)
        show ?thesis
        proof (cases "select_version specific_version extension_data")
          case (Inl e)
          with Some True Response assms show ?thesis by (auto simp add: dve_stages)
        next
          case (Inr v)
          show ?thesis
          proof (cases v)
            case None
            with Inr Some True Response assms show ?thesis by (auto simp add: dve_stages)
          next
            case (Some version)
            obtain res fsys where
              res: "resolve_path os destination (vsix_name publisher extension_name version)
                      (fs w) = (res, fsys)"
              by (cases "resolve_path os destination (vsix_name publisher extension_name version)
                      (fs w)")
            show ?thesis
            proof (cases res)
              case (Inl e)
              with res Some Inr \<open>json_value response = Some extension_data\<close> True Response assms
              show ?thesis by (auto simp add: dve_stages)
            next
              case inr: (Inr file_path)
              from dve_requests [of net w, OF Response True
                  \<open>json_value response = Some extension_data\<close> _ _ assms, of version file_path fsys]
                Some Inr res inr
              have "sent w' = sent w @ ?post #
                (if no_cache \<or> \<not> path_exists fsys file_path
                 then [download_request publisher extension_name version proxy] else [])"
                by simp
              with Some Inr \<open>json_value response = Some extension_data\<close> Response show ?thesis
                by auto
            qed
          qed
        qed
      qed
    qed
  qed
  then show ?thesis unfolding post get .
qed

theorem requests_conform_witness:
  "sent (snd (download_vscode_extension posix_os net_ok (loud ''ms-python.python'') ''ms-python'' ''python''
            None None None False world0)) =
     [\<lparr>req_method = POST,
       req_url = ''https://marketplace.visualstudio.com/_apis/public/gallery/extensionquery'',
       req_headers = [(''Content-Type'', ''application/json''),
                      (''Accept'', ''application/json;api-version=3.0-preview.1''),
                      (''User-Agent'', ''Offline VSIX/1.0'')],
       req_data = Some (JObject [
          (''filters'', JArray [JObject [
             (''criteria'', JArray [JObject [
                (''filterType'', JInt 7),
                (''value'', JString ''ms-python.python'')]])]]),
          (''flags'', JInt 914)]),
       req_timeout = 20, req_proxies = []\<rparr>,
      \<lparr>req_method = GET,
       req_url = ''https://ms-python.gallery.vsassets.io/_apis/public/gallery/publisher/ms-python/extension/python/2024.1.0/assetbyname/Microsoft.VisualStudio.Services.VSIXPackage'',
       req_headers = [], req_data = None, req_timeout = 60, req_proxies = []\<rparr>]"
proof -
  let ?run = "download_vscode_extension posix_os net_ok (loud ''ms-python.python'') ''ms-python'' ''python''
            None None None False world0"
  have run: "?run = (fst ?run, snd ?run)" by simp
  from requests_conform [OF run] obtain rest where
    shape: "sent (snd ?run) = sent world0 @
       \<lparr>req_method = POST,
       req_url = ''https://marketplace.visualstudio.com/_apis/public/gallery/extensionquery'',
       req_headers = [(''Content-Type'', ''application/json''),
                      (''Accept'', ''application/json;api-version=3.0-preview.1''),
                      (''User-Agent'', ''Offline VSIX/1.0'')],
       req_data = Some (JObject [
          (''filters'', JArray [JObject [
             (''criteria'', JArray [JObject [
                (''filterType'', JInt 7),
                (''value'', JString (''ms-python'' @ ''.'' @ ''python''))]])]]),
          (''flags'', JInt 914)]),
       req_timeout = 20, req_proxies = session_proxies None\<rparr> # rest"
    by blast
  have len: "length (sent (snd ?run)) = 2" by (simp add: eval_defs)
  have second: "sent (snd ?run) ! 1 = \<lparr>req_method = GET,
       req_url = ''https://ms-python.gallery.vsassets.io/_apis/public/gallery/publisher/ms-python/extension/python/2024.1.0/assetbyname/Microsoft.VisualStudio.Services.VSIXPackage'',
       req_headers = [], req_data = None, req_timeout = 60, req_proxies = []\<rparr>"
    by (simp add: eval_defs download_url_def session_proxies_def)
  from shape len second show ?thesis
    by (cases rest) (auto simp add: world0_def session_proxies_def str_truthy_def opt_str_def)
qed

subsection \<open>C7: the artifact file\<close>

text \<open>
  Claim C7, as stated, is that every run whose download GET returns 200 writes the body to
  \<^verbatim>\<open><destination or "extensions">/<publisher>.<name>-<version>.vsix\<close>. The file is opened with
  \<^verbatim>\<open>open(file_path, "wb")\<close>, and the code has no handler for what that raises. For the
  identifier \<^verbatim>\<open>pub.a/b\<close> the name holds a separator, the directory \<^verbatim>\<open>extensions/pub.a\<close> does
  not exist, and the run ends with FileNotFoundError after a GET answered 200: nothing is
  written. The path is formed by \<^verbatim>\<open>os.path.join\<close>, too, so a file name that starts with a
  separator stands alone, outside the directory.
\<close>

theorem write_can_fail:
  "net_ok [metadata_request ''pub'' ''a/b'' None]
       (download_request ''pub'' ''a/b'' (JString ''2024.1.0'') None)
     = Response \<lparr>status_code = 200, content = ''PK'', json_value = None\<rparr>
   \<and> os_write posix_os [''extensions'' \<mapsto> Dir] ''extensions/pub.a/b-2024.1.0.vsix'' ''PK''
     = (Some FileNotFoundError, [''extensions'' \<mapsto> Dir])
   \<and> download posix_os net_ok (loud ''pub.a/b'') world0 =
       (Raised FileNotFoundError,
        \<lparr>fs = [''extensions'' \<mapsto> Dir],
         sent = [metadata_request ''pub'' ''a/b'' None,
                 download_request ''pub'' ''a/b'' (JString ''2024.1.0'') None],
         stdout = [replicate 50 CHR ''='', ''Downloading pub.a/b'', replicate 50 CHR ''='',
                   ''Querying Marketplace API...'', ''Downloading version 2024.1.0...'']\<rparr>)
   \<and> fst (resolve_path posix_os None (vsix_name ''/tmp/x'' ''y'' (JString ''1.0''))
            [''extensions'' \<mapsto> Dir]) = Inr ''/tmp/x.y-1.0.vsix''"
  by (simp add: download_def py_strip_def py_isspace_def banner_def eval_defs)

text \<open>
  Claim C7, amended. For every run whose download GET is answered: the resolved path is
  \<^verbatim>\<open>os.path.join\<close> of the destination (or \<^verbatim>\<open>extensions\<close>) and \<^verbatim>\<open>publisher.name-version.vsix\<close>, that
  is the directory, a separator unless the directory ends with one, and the file name, or
  the file name alone when it starts with a separator. On status 200 the run makes the one
  write of the full response body to that path: when the write returns, the run returns
  normally with the file system the write gives, in which (on an operating system whose
  writes store their bytes) the file holds exactly the bytes of the body; when the write
  raises, the exception leaves the run. On any other status a failure naming the
  identifier and version is reported through \<^verbatim>\<open>_print\<close>, the GET is the last request (no
  retry) and nothing is written.
\<close>

theorem artifact_written:
  assumes "net (sent w) (metadata_request publisher extension_name proxy) = Response response"
    and "status_code response = 200"
    and "json_value response = Some extension_data"
    and "select_version specific_version extension_data = Inr (Some version)"
    and "resolve_path os destination (vsix_name publisher extension_name version) (fs w)
           = (Inr file_path, fsys)"
    and "no_cache \<or> \<not> path_exists fsys file_path"
    and "net (sent w @ [metadata_request publisher extension_name proxy])
           (download_request publisher extension_name version proxy) = Response download_response"
    and "download_vscode_extension os net self publisher extension_name proxy specific_version
           destination no_cache w = (r, w')"
  shows "file_path =
           (let d = (if str_truthy destination then opt_str destination else ''extensions'');
                n = publisher @ ''.'' @ extension_name @ ''-'' @ py_str version @ ''.vsix''
            in if hd n = CHR ''/'' then n
               else if last d = CHR ''/'' then d @ n
               else d @ ''/'' @ n)
       \<and> sent w' = sent w @ [metadata_request publisher extension_name proxy,
                             download_request publisher extension_name version proxy]
       \<and> (if status_code download_response = 200
          then (case os_write os fsys file_path (content download_response) of
                  (None, fsys') \<Rightarrow>
                    r = Returned \<and> fs w' = fsys'
                    \<and> (write_stores os \<longrightarrow>
                         fs w' file_path = Some (File (content download_response)))
                | (Some e, fsys') \<Rightarrow> r = Raised e \<and> fs w' = fsys')
          else r = Returned \<and> fs w' = fsys
             \<and> stdout w' = stdout w @
                 (if self_print self
                  then (if str_truthy proxy then [''Using proxy: '' @ opt_str proxy] else [])
                       @ [''Querying Marketplace API...'',
                          ''Downloading version '' @ py_str version @ ''...'',
                          ''Failed to download '' @ publisher @ ''.'' @ extension_name @ ''-''
                             @ py_str version @ ''.vsix'']
                  else []))"
proof -
  let ?w = "(query_world self publisher extension_name proxy w)\<lparr>fs := fsys\<rparr>"
  let ?d = "if str_truthy destination then opt_str destination else ''extensions''"
  let ?n = "publisher @ ''.'' @ extension_name @ ''-'' @ py_str version @ ''.vsix''"
  have run: "fetch_artifact os net self publisher extension_name proxy version no_cache
      file_path ?w = (r, w')"
    using dve_fetch [of net w, OF assms(1-5)] assms(8) by simp
  have get: "no_cache \<or> \<not> path_exists (fs ?w) file_path" using assms(6) by simp
  have d: "?d \<noteq> []" by (simp add: str_truthy_def)
  have n: "?n \<noteq> []" by simp
  have "file_path = path_join ?d ?n"
    using resolve_path_file [OF assms(5)] by (simp add: vsix_name_def)
  with d n have path: "file_path =
      (if hd ?n = CHR ''/'' then ?n else if last ?d = CHR ''/'' then ?d @ ?n else ?d @ ''/'' @ ?n)"
    unfolding path_join_def by (simp only: simp_thms if_False append_assoc)
  have stores: "fsys' file_path = Some (File (content download_response))"
    if "write_stores os"
      "os_write os fsys file_path (content download_response) = (None, fsys')" for fsys'
    using that unfolding write_stores_def by blast
  from fetch_artifact_get [OF get run] assms(7)
  have rest: "sent w' = sent w @ [metadata_request publisher extension_name proxy,
                             download_request publisher extension_name version proxy]
       \<and> (if status_code download_response = 200
          then (case os_write os fsys file_path (content download_response) of
                  (None, fsys') \<Rightarrow>
                    r = Returned \<and> fs w' = fsys'
                    \<and> (write_stores os \<longrightarrow>
                         fs w' file_path = Some (File (content download_response)))
                | (Some e, fsys') \<Rightarrow> r = Raised e \<and> fs w' = fsys')
          else r = Returned \<and> fs w' = fsys
             \<and> stdout w' = stdout w @
                 (if self_print self
                  then (if str_truthy proxy then [''Using proxy: '' @ opt_str proxy] else [])
                       @ [''Querying Marketplace API...'',
                          ''Downloading version '' @ py_str version @ ''...'',
                          ''Failed to download '' @ publisher @ ''.'' @ extension_name @ ''-''
                             @ py_str version @ ''.vsix'']
                  else []))"
    by (auto simp add: vsix_name_def stores split: prod.splits option.splits)
  from path rest show ?thesis unfolding Let_def by (rule conjI)
qed

theorem artifact_written_witness:
  "write_stores posix_os
   \<and> net_ok (sent world0 @ [metadata_request ''ms-python'' ''python'' None])
       (download_request ''ms-python'' ''python'' (JString ''2024.1.0'') None)
     = Response \<lparr>status_code = 200, content = ''PK'', json_value = None\<rparr>
   \<and> resolve_path posix_os None (vsix_name ''ms-python'' ''python'' (JString ''2024.1.0''))
        (fs world0)
     = (Inr ''extensions/ms-python.python-2024.1.0.vsix'', [''extensions'' \<mapsto> Dir])
   \<and> os_write posix_os [''extensions'' \<mapsto> Dir] ''extensions/ms-python.python-2024.1.0.vsix''
        ''PK''
     = (None, [''extensions'' \<mapsto> Dir,
               ''extensions/ms-python.python-2024.1.0.vsix'' \<mapsto> File ''PK''])
   \<and> fst (download_vscode_extension posix_os net_ok (loud ''ms-python.python'') ''ms-python''
            ''python'' None None None False world0) = Returned
   \<and> fs (snd (download_vscode_extension posix_os net_ok (loud ''ms-python.python'') ''ms-python''
            ''python'' None None None False world0)) ''extensions/ms-python.python-2024.1.0.vsix''
     = Some (File ''PK'')
   \<and> net_404 (sent world0 @ [metadata_request ''ms-python'' ''python'' None])
       (download_request ''ms-python'' ''python'' (JString ''2024.1.0'') None)
     = Response \<lparr>status_code = 404, content = [], json_value = None\<rparr>
   \<and> fs (snd (download_vscode_extension posix_os net_404 (loud ''ms-python.python'') ''ms-python''
            ''python'' None None None False world0)) ''extensions/ms-python.python-2024.1.0.vsix''
     = None
   \<and> stdout (snd (download_vscode_extension posix_os net_404 (loud ''ms-python.python'')
            ''ms-python'' ''python'' None None None False world0))
     = [''Querying Marketplace API...'', ''Downloading version 2024.1.0...'',
        ''Failed to download ms-python.python-2024.1.0.vsix'']"
proof -
  let ?meta = "\<lparr>status_code = 200, content = [], json_value = Some metadata_2024\<rparr>"
  let ?resp = "\<lparr>status_code = 200, content = ''PK'', json_value = None\<rparr>"
  let ?miss = "\<lparr>status_code = 404, content = [], json_value = None\<rparr>"
  let ?run = "download_vscode_extension posix_os net_ok (loud ''ms-python.python'') ''ms-python''
            ''python'' None None None False world0"
  let ?run' = "download_vscode_extension posix_os net_404 (loud ''ms-python.python'') ''ms-python''
            ''python'' None None None False world0"
  have h1: "net_ok (sent world0) (metadata_request ''ms-python'' ''python'' None) = Response ?meta"
    by (simp add: net_ok_def metadata_request_def)
  have h1': "net_404 (sent world0) (metadata_request ''ms-python'' ''python'' None) = Response ?meta"
    by (simp add: net_404_def metadata_request_def)
  have h2: "status_code ?meta = 200" by simp
  have h3: "json_value ?meta = Some metadata_2024" by simp
  have h4: "select_version None metadata_2024 = Inr (Some (JString ''2024.1.0''))"
    by (simp add: select_version_def version_lookup_def metadata_2024_def exn_bind_def py_or_def
        str_truthy_def opt_str_def)
  have h5: "resolve_path posix_os None (vsix_name ''ms-python'' ''python'' (JString ''2024.1.0''))
        (fs world0)
      = (Inr ''extensions/ms-python.python-2024.1.0.vsix'', [''extensions'' \<mapsto> Dir])"
    by (simp add: eval_defs)
  have h6: "False \<or> \<not> path_exists [''extensions'' \<mapsto> Dir]
              ''extensions/ms-python.python-2024.1.0.vsix''"
    by (simp add: path_exists_def)
  have h7: "net_ok (sent world0 @ [metadata_request ''ms-python'' ''python'' None])
       (download_request ''ms-python'' ''python'' (JString ''2024.1.0'') None) = Response ?resp"
    by (simp add: net_ok_def download_request_def)
  have h7': "net_404 (sent world0 @ [metadata_request ''ms-python'' ''python'' None])
       (download_request ''ms-python'' ''python'' (JString ''2024.1.0'') None) = Response ?miss"
    by (simp add: net_404_def download_request_def)
  have h8: "?run = (fst ?run, snd ?run)" by simp
  have h8': "?run' = (fst ?run', snd ?run')" by simp
  have wr: "os_write posix_os [''extensions'' \<mapsto> Dir]
        ''extensions/ms-python.python-2024.1.0.vsix'' ''PK''
     = (None, [''extensions'' \<mapsto> Dir,
               ''extensions/ms-python.python-2024.1.0.vsix'' \<mapsto> File ''PK''])"
    by (simp add: posix_os_def posix_write_def parent_dir_def)
  from artifact_written [of net_ok, OF h1 h2 h3 h4 h5 h6 h7 h8] wr posix_write_stores
  have ok: "fst ?run = Returned"
    "fs (snd ?run) ''extensions/ms-python.python-2024.1.0.vsix'' = Some (File ''PK'')"
    by simp_all
  from artifact_written [of net_404, OF h1' h2 h3 h4 h5 h6 h7' h8']
  have miss: "fs (snd ?run') = [''extensions'' \<mapsto> Dir]"
    "stdout (snd ?run') = [''Querying Marketplace API...'', ''Downloading version 2024.1.0...'',
        ''Failed to download ms-python.python-2024.1.0.vsix'']"
    by (simp_all add: world0_def loud_def str_truthy_def opt_str_def py_str_def)
  from ok miss h5 h7 h7' wr posix_write_stores show ?thesis by simp
qed

subsection \<open>C8: a metadata call that fails at the transport level\<close>

text \<open>
  Claim C8. When the metadata POST, made with a timeout of 20, times out or fails at the
  transport level, \<^verbatim>\<open>_download_vscode_extension\<close> returns normally, the POST is the only
  request of the run (no download request), the file system is unchanged (no destination
  directory is created), and the failure is reported through \<^verbatim>\<open>_print\<close>.
\<close>

theorem metadata_transport_failure:
  assumes "net (sent w) (metadata_request publisher extension_name proxy) = RequestException e"
    and "download_vscode_extension os net self publisher extension_name proxy specific_version
           destination no_cache w = (r, w')"
  shows "r = Returned
       \<and> sent w' = sent w @ [metadata_request publisher extension_name proxy]
       \<and> req_method (metadata_request publisher extension_name proxy) = POST
       \<and> req_timeout (metadata_request publisher extension_name proxy) = 20
       \<and> fs w' = fs w
       \<and> stdout w' =
           stdout w @ (if self_print self
                       then (if str_truthy proxy then [''Using proxy: '' @ opt_str proxy] else [])
                            @ [''Querying Marketplace API...'', ''Failed to query Marketplace API: '' @ e]
                       else [])"
  using assms by (auto simp add: dve_stages metadata_request_def)

theorem metadata_transport_failure_witness:
  "net_down (sent world0) (metadata_request ''pub'' ''ext'' None) = RequestException ''timed out''
   \<and> download_vscode_extension posix_os net_down (loud ''pub.ext'') ''pub'' ''ext'' None None (Some ''out'') False world0
     = (Returned,
        \<lparr>fs = Map.empty, sent = [metadata_request ''pub'' ''ext'' None],
         stdout = [''Querying Marketplace API...'', ''Failed to query Marketplace API: timed out'']\<rparr>)"
proof -
  have down: "net_down (sent world0) (metadata_request ''pub'' ''ext'' None) = RequestException ''timed out''"
    by (simp add: net_down_def)
  obtain r w' where run: "download_vscode_extension posix_os net_down (loud ''pub.ext'') ''pub'' ''ext'' None None (Some ''out'') False world0 = (r, w')"
    by (cases "download_vscode_extension posix_os net_down (loud ''pub.ext'') ''pub'' ''ext'' None None (Some ''out'') False world0")
  from metadata_transport_failure [OF down run]
  have "r = Returned" "sent w' = [metadata_request ''pub'' ''ext'' None]" "fs w' = Map.empty"
    "stdout w' = [''Querying Marketplace API...'', ''Failed to query Marketplace API: timed out'']"
    by (simp_all add: world0_def loud_def str_truthy_def opt_str_def)
  then have "w' = \<lparr>fs = Map.empty, sent = [metadata_request ''pub'' ''ext'' None],
         stdout = [''Querying Marketplace API...'', ''Failed to query Marketplace API: timed out'']\<rparr>"
    by (cases w') simp
  with run \<open>r = Returned\<close> down show ?thesis by simp
qed

subsection \<open>C9: the batch runner\<close>

text \<open>
  Claim C9: in a batch run a failure of one identifier never prevents the processing of the
  lines after it. The KeyError of C3 is not caught by \<^verbatim>\<open>download\<close> nor by the loop of
  \<^verbatim>\<open>download_plugins_from_file\<close>: on a list of two lines, when the answer for the first has
  an object as \<^verbatim>\<open>results\<close>, the batch run raises after the first metadata request, and
  the second line, whose own run would return normally, is never processed.
\<close>

theorem batch_stops_at_keyerror:
  "readlines ''odd.one\<newline>pub.ext\<newline>'' = [''odd.one\<newline>'', ''pub.ext\<newline>'']
   \<and> fst (download_plugins_from_file posix_os net_odd ''list.txt'' None None None False True world_list)
       = Raised KeyError
   \<and> sent (snd (download_plugins_from_file posix_os net_odd ''list.txt'' None None None False True world_list))
       = [metadata_request ''odd'' ''one'' None]
   \<and> fst (download posix_os net_odd (loud ''pub.ext'') world_list) = Returned"
  by (simp add: download_plugins_from_file_def world_list_def path_exists_def readlines_def
      download_def py_strip_def py_isspace_def banner_def eval_defs net_odd_def metadata_odd_def
      payload_def)

subsection \<open>C10: argument and file option together\<close>

text \<open>
  Claim C10, as stated, is that whenever both the positional argument and \<^verbatim>\<open>--file\<close> are
  supplied only the file is processed, and that the usage message is printed only when
  neither is supplied. The code tests both with \<^verbatim>\<open>if\<close>, so an empty string counts as not
  supplied: with an empty \<^verbatim>\<open>--file\<close> value the positional argument is processed, and with
  an empty positional argument alone the usage message is printed.
\<close>

theorem empty_file_option:
  "cli posix_os net_down (Some ''badid'') (Some []) None None None False True world_list =
     (Returned,
      \<lparr>fs = [''list.txt'' \<mapsto> File ''odd.one\<newline>pub.ext\<newline>''], sent = [],
       stdout = [''Invalid extension identifier: badid. Use the form publisher.extension'']\<rparr>)
   \<and> cli posix_os net_down (Some []) None None None None False True world0 =
     (Returned, \<lparr>fs = Map.empty, sent = [], stdout = [usage_message]\<rparr>)"
  by (simp add: cli_def str_truthy_def opt_str_def download_def py_strip_def py_isspace_def
      invalid_message_def downloader_print_def py_print_def world0_def world_list_def)

text \<open>
  Claim C10, amended. When the \<^verbatim>\<open>--file\<close> value is a non-empty string, \<^verbatim>\<open>cli\<close> is the batch
  run over that file, whatever the positional argument is; otherwise, when the positional
  argument is non-empty, it is the single-identifier run; when both are absent or empty it
  prints the usage message and does nothing else, and in the other cases the usage message
  is not among the messages printed.
\<close>

theorem file_takes_precedence:
  "(str_truthy file \<longrightarrow>
      cli os net extension file proxy version destination no_cache no_print w =
        download_plugins_from_file os net (opt_str file) proxy version destination no_cache
          no_print w)
   \<and> (\<not> str_truthy file \<and> str_truthy extension \<longrightarrow>
      cli os net extension file proxy version destination no_cache no_print w =
        download os net
          \<lparr>self_extension = extension, self_proxy = proxy, self_version = version,
           self_destination = destination, self_no_cache = no_cache, self_print = no_print\<rparr> w)
   \<and> (\<not> str_truthy file \<and> \<not> str_truthy extension \<longrightarrow>
      cli os net extension file proxy version destination no_cache no_print w =
        (Returned, py_print usage_message w))
   \<and> (str_truthy file \<or> str_truthy extension \<longrightarrow>
      (\<exists>msgs. stdout (snd (cli os net extension file proxy version destination no_cache no_print w))
                = stdout w @ msgs \<and> usage_message \<notin> set msgs))"
proof -
  let ?self = "\<lparr>self_extension = extension, self_proxy = proxy, self_version = version,
           self_destination = destination, self_no_cache = no_cache, self_print = no_print\<rparr>"
  have free: "usage_message \<notin> set msgs" if "list_all pipeline_message msgs" for msgs
    using that usage_not_pipeline by (auto simp add: list_all_iff)
  have "\<exists>msgs. stdout (snd (cli os net extension file proxy version destination no_cache no_print w))
                = stdout w @ msgs \<and> usage_message \<notin> set msgs"
    if mode: "str_truthy file \<or> str_truthy extension"
  proof (cases "str_truthy file")
    case True
    from batch_stdout [of os net "opt_str file" proxy version destination no_cache no_print w]
    obtain msgs where "stdout (snd (download_plugins_from_file os net (opt_str file) proxy version
        destination no_cache no_print w)) = stdout w @ msgs" "list_all pipeline_message msgs"
      by blast
    with True free show ?thesis by (auto simp add: cli_def)
  next
    case False
    from download_stdout [of os net ?self w]
    obtain msgs where "stdout (snd (download os net ?self w)) = stdout w @ msgs"
      "list_all pipeline_message msgs" by blast
    with False mode free show ?thesis by (auto simp add: cli_def)
  qed
  then show ?thesis by (simp add: cli_def)
qed

theorem file_takes_precedence_witness:
  "str_truthy (Some ''list.txt'')
   \<and> cli posix_os net_down (Some ''other.ext'') (Some ''list.txt'') None None None False True world_list =
       download_plugins_from_file posix_os net_down ''list.txt'' None None None False True world_list
   \<and> sent (snd (cli posix_os net_down (Some ''other.ext'') (Some ''list.txt'') None None None False True
        world_list)) = [metadata_request ''odd'' ''one'' None, metadata_request ''pub'' ''ext'' None]"
proof -
  have h: "str_truthy (Some ''list.txt'')" by (simp add: str_truthy_def opt_str_def)
  from file_takes_precedence [of "Some ''list.txt''" posix_os net_down "Some ''other.ext''" None None None
      False True world_list] h
  have eq: "cli posix_os net_down (Some ''other.ext'') (Some ''list.txt'') None None None False True world_list =
       download_plugins_from_file posix_os net_down ''list.txt'' None None None False True world_list"
    by (simp add: opt_str_def)
  have "sent (snd (download_plugins_from_file posix_os net_down ''list.txt'' None None None False True
      world_list)) = [metadata_request ''odd'' ''one'' None, metadata_request ''pub'' ''ext'' None]"
    by (simp add: download_plugins_from_file_def world_list_def path_exists_def readlines_def
        download_def py_strip_def py_isspace_def banner_def eval_defs net_down_def)
  with h eq show ?thesis by simp
qed

end
